theory Spec2Isabelle
  imports Complex_Main
begin

section \<open>JavaScript strings and numbers\<close>

text \<open>
  The two user scripts (version 1.0 in \<^verbatim>\<open>tradingview_autoupdate.user.js\<close>, version 2.0
  printed in the README) are embedded function by function.  A JavaScript string is a
  \<open>string\<close> (a list of characters, read as code units); the built-in string methods the
  scripts call are written out here.
\<close>

abbreviation NL :: char where
  "NL \<equiv> CHR 0x0A"

text \<open>\<^verbatim>\<open>String.prototype.trim\<close> strips white space and line terminators (the ASCII ones here).\<close>

definition is_space :: "char \<Rightarrow> bool" where
  "is_space c = (c = CHR 0x20 \<or> c = CHR 0x09 \<or> c = CHR 0x0A \<or> c = CHR 0x0B \<or> c = CHR 0x0C \<or> c = CHR 0x0D)"

definition js_trim :: "string \<Rightarrow> string" where
  "js_trim s = rev (dropWhile is_space (rev (dropWhile is_space s)))"

text \<open>\<^verbatim>\<open>s.split(c)\<close> for a one-character separator: never empty, \<^verbatim>\<open>''.split(c)\<close> is \<^verbatim>\<open>['']\<close>.\<close>

fun js_split :: "char \<Rightarrow> string \<Rightarrow> string list" where
  "js_split c [] = [[]]"
| "js_split c (x # xs) =
     (if x = c then [] # js_split c xs
      else (case js_split c xs of [] \<Rightarrow> [[x]] | l # ls \<Rightarrow> (x # l) # ls))"

text \<open>\<^verbatim>\<open>xs.join(sep)\<close>.\<close>

fun js_join :: "string \<Rightarrow> string list \<Rightarrow> string" where
  "js_join sep [] = []"
| "js_join sep [x] = x"
| "js_join sep (x # y # ys) = x @ sep @ js_join sep (y # ys)"

fun starts_with :: "string \<Rightarrow> string \<Rightarrow> bool" where
  "starts_with s [] = True"
| "starts_with [] (p # ps) = False"
| "starts_with (x # xs) (p # ps) = (x = p \<and> starts_with xs ps)"

text \<open>\<^verbatim>\<open>s.includes(sub)\<close>: \<open>sub\<close> occurs in \<open>s\<close>.\<close>

fun js_includes :: "string \<Rightarrow> string \<Rightarrow> bool" where
  "js_includes [] sub = (sub = [])"
| "js_includes (x # xs) sub = (starts_with (x # xs) sub \<or> js_includes xs sub)"

text \<open>\<^verbatim>\<open>s.toLowerCase()\<close> on the ASCII letters.\<close>

definition lower_char :: "char \<Rightarrow> char" where
  "lower_char c =
     (case map_of (zip ''ABCDEFGHIJKLMNOPQRSTUVWXYZ'' ''abcdefghijklmnopqrstuvwxyz'') c of
        Some l \<Rightarrow> l
      | None \<Rightarrow> c)"

definition toLowerCase :: "string \<Rightarrow> string" where
  "toLowerCase s = map lower_char s"

text \<open>The decimal numeral of a natural number: what \<^verbatim>\<open>'' + n\<close> gives for the HTTP status and
  for \<^verbatim>\<open>Date.now()\<close>.\<close>

definition digit_char :: "nat \<Rightarrow> char" where
  "digit_char d = ''0123456789'' ! d"

function decimal :: "nat \<Rightarrow> string" where
  "decimal n = (if n < 10 then [digit_char n] else decimal (n div 10) @ [digit_char (n mod 10)])"
  by pat_completeness auto
termination
  by (relation "measure id") auto

declare decimal.simps [simp del]

text \<open>
  A JavaScript number as far as the scripts look at it: \<open>NaN\<close>, the two infinities, or a
  finite double named by its value (\<open>+0\<close> and \<open>-0\<close> are the one value \<open>0\<close>, as \<^verbatim>\<open>===\<close>
  has it).  \<^verbatim>\<open>a !== b\<close> on numbers is \<open>strict_neq\<close>: \<open>NaN\<close> differs from everything,
  itself included.
\<close>

datatype jsnum = NaN | PosInfinity | NegInfinity | Num rat

definition strict_neq :: "jsnum \<Rightarrow> jsnum \<Rightarrow> bool" where
  "strict_neq a b = (a = NaN \<or> b = NaN \<or> a \<noteq> b)"

section \<open>Exceptions, effects and the state shared by both versions\<close>

text \<open>
  What a \<^verbatim>\<open>catch (error)\<close> of the scripts can receive: an \<^verbatim>\<open>Error\<close> built by the script with
  its message, the response object that \<^verbatim>\<open>GM_xmlhttpRequest\<close> hands to \<^verbatim>\<open>onerror\<close> (it has
  no \<^verbatim>\<open>message\<close> property), or a \<^verbatim>\<open>TypeError\<close> of the runtime.
\<close>

datatype exn = Error string | ErrorResponse | TypeError string

fun error_message :: "exn \<Rightarrow> string" where
  "error_message (Error m) = m"
| "error_message ErrorResponse = ''undefined''"
| "error_message (TypeError m) = m"

text \<open>
  The outcome of the request: \<^verbatim>\<open>onload\<close> with a status and a body, or \<^verbatim>\<open>onerror\<close>.  The
  scripts register no other callback, so the promise of a request that times out or is
  aborted never settles: that invocation never completes (in the tasks further down it
  stays suspended at its first \<^verbatim>\<open>await\<close>), and \<^verbatim>\<open>fetchAndUpdate\<close> below is the function
  for a request that does come back.
\<close>

datatype http_result = Loaded nat string | Failed

type_synonym elem = nat

text \<open>The latest record as version 2.0 parses it (the object \<^verbatim>\<open>fetchData\<close> resolves with).\<close>

record ledger_record =
  rec_date :: string
  rec_resistance :: jsnum
  rec_support :: jsnum

text \<open>
  Everything a script does to the world outside its own variables, in the order it does it:
  the HTTP request, clicks, writes to an input and the events dispatched on it, console
  output and desktop notifications.
\<close>

datatype effect =
    Request string
  | Click elem
  | SetValue elem string
  | SetNumber elem jsnum
  | Dispatch elem string
  | Log string
  | LogRecord string ledger_record
  | LogError string exn
  | Notify string string nat

text \<open>
  The part of the client state both versions have: the guard, the wall clock in
  milliseconds, and the effects so far.
\<close>

record client_base =
  isUpdating :: bool
  clock :: nat
  effects :: "effect list"

definition emit :: "effect \<Rightarrow> 'a client_base_scheme \<Rightarrow> 'a client_base_scheme" where
  "emit e w = w\<lparr>effects := effects w @ [e]\<rparr>"

text \<open>\<^verbatim>\<open>await sleep(ms)\<close>: the function goes on no earlier than \<open>ms\<close> later.\<close>

definition sleep :: "nat \<Rightarrow> 'a client_base_scheme \<Rightarrow> 'a client_base_scheme" where
  "sleep ms w = w\<lparr>clock := clock w + ms\<rparr>"

text \<open>
  The browser side of one cycle: how the request ends and after how long, and the
  locale's \<^verbatim>\<open>toLocaleTimeString\<close>.
\<close>

record host_base =
  response :: http_result
  latency :: nat
  time_string :: "nat \<Rightarrow> string"

record config_base =
  updateIntervalMs :: nat
  indicatorName :: string
  showNotifications :: bool

section \<open>Version 1.0\<close>

record config = config_base +
  csvUrl :: string
  autoClickApply :: bool

definition CONFIG :: config where
  "CONFIG = \<lparr>updateIntervalMs = 15 * 60 * 1000,
     indicatorName = ''Options Levels Tracker'',
     showNotifications = True,
     csvUrl = ''https://raw.githubusercontent.com/mabkkhome-lgtm/deribit-options-data/main/data/btc_levels.csv'',
     autoClickApply = True\<rparr>"

text \<open>
  The page as the queries of the script see it.  Each query of version 1.0 runs at most once
  in a cycle, so a field holds what that query returns at the moment the script makes it:
  \<^item> \<open>legends\<close>: the elements matching \<^verbatim>\<open>[data-name="legend-source-item"]\<close>, each with the
    text of its first \<^verbatim>\<open>[class*="title"]\<close> descendant and its
    \<^verbatim>\<open>[data-name="legend-settings-action"]\<close> descendant, when there is one;
  \<^item> \<open>indicator_items\<close>: the elements matching \<^verbatim>\<open>[class*="legendSourceItem"]\<close>, with their
    text and first \<^verbatim>\<open>[class*="button"]\<close> descendant;
  \<^item> \<open>properties_dialogs\<close>: the elements matching
    \<^verbatim>\<open>[data-dialog-name="indicator-properties-dialog"]\<close> 500 ms after the click;
  \<^item> \<open>class_dialog\<close>: the first element matching \<^verbatim>\<open>[class*="dialog-"]\<close> then.
  A text area has the text of its closest \<^verbatim>\<open>[class*="cell"]\<close> ancestor or else of its parent
  (it is a descendant of the dialog, so it has one) and its \<^verbatim>\<open>placeholder\<close>, which is
  \<open>None\<close> for an element that has no such property.  The buttons of a dialog are those it
  has 300 ms after the write.
\<close>

record legend_item =
  legend_title :: "string option"
  legend_settings :: "elem option"

record source_item =
  item_text :: string
  item_button :: "elem option"

record textarea =
  ta_id :: elem
  ta_parent_text :: string
  ta_placeholder :: "string option"

record button =
  btn_id :: elem
  btn_text :: string

record dialog =
  dlg_textareas :: "textarea list"
  dlg_buttons :: "button list"
  dlg_submit :: "elem option"

record page =
  legends :: "legend_item list"
  indicator_items :: "source_item list"
  properties_dialogs :: "dialog list"
  class_dialog :: "dialog option"

record host = host_base +
  page :: page

text \<open>
  The script's variables \<^verbatim>\<open>lastData\<close> and \<^verbatim>\<open>isUpdating\<close>, and its status box: the
  background of \<^verbatim>\<open>#status-dot\<close>, the text of \<^verbatim>\<open>#status-text\<close> and of
  \<^verbatim>\<open>#status-details\<close>, each \<open>None\<close> while the element is not in the document.
\<close>

record client = client_base +
  lastData :: string
  status_dot :: "string option"
  status_text :: "string option"
  status_details :: "string option"

definition updateStatus :: "host \<Rightarrow> string \<Rightarrow> bool \<Rightarrow> client \<Rightarrow> client" where
  "updateStatus h txt isError w =
     w\<lparr>status_dot := map_option (\<lambda>_. if isError then ''#f44336'' else ''#4caf50'') (status_dot w),
       status_text := map_option (\<lambda>_. txt) (status_text w),
       status_details := map_option (\<lambda>_. ''Last update: '' @ time_string h (clock w)) (status_details w)\<rparr>"

text \<open>\<^verbatim>\<open>fetchData\<close>: the URL it requests, and what its promise settles with.\<close>

definition fetchData_url :: "nat \<Rightarrow> string" where
  "fetchData_url now = csvUrl CONFIG @ ''?t='' @ decimal now"

fun fetchData :: "http_result \<Rightarrow> exn + string" where
  "fetchData (Loaded status responseText) =
     (if status = 200 then
        (let lines = js_split NL (js_trim responseText);
             dataLines = js_join [NL] (drop 1 lines)
         in Inr dataLines)
      else Inl (Error (''Failed to fetch: '' @ decimal status)))"
| "fetchData Failed = Inl ErrorResponse"

text \<open>\<^verbatim>\<open>findIndicatorSettings\<close>: the two loops give the button to click, if any.\<close>

fun findIndicatorSettings_legends :: "legend_item list \<Rightarrow> elem option" where
  "findIndicatorSettings_legends [] = None"
| "findIndicatorSettings_legends (legend # rest) =
     (case legend_title legend of
        None \<Rightarrow> findIndicatorSettings_legends rest
      | Some titleSpan \<Rightarrow>
          if js_includes titleSpan (indicatorName CONFIG) then
            (case legend_settings legend of
               Some settingsBtn \<Rightarrow> Some settingsBtn
             | None \<Rightarrow> findIndicatorSettings_legends rest)
          else findIndicatorSettings_legends rest)"

fun findIndicatorSettings_items :: "source_item list \<Rightarrow> elem option" where
  "findIndicatorSettings_items [] = None"
| "findIndicatorSettings_items (item # rest) =
     (if js_includes (item_text item) (indicatorName CONFIG) then
        (case item_button item of
           Some settingsBtn \<Rightarrow> Some settingsBtn
         | None \<Rightarrow> findIndicatorSettings_items rest)
      else findIndicatorSettings_items rest)"

definition findIndicatorSettings :: "page \<Rightarrow> client \<Rightarrow> bool \<times> client" where
  "findIndicatorSettings p w =
     (case findIndicatorSettings_legends (legends p) of
        Some settingsBtn \<Rightarrow> (True, emit (Click settingsBtn) w)
      | None \<Rightarrow>
          (case findIndicatorSettings_items (indicator_items p) of
             Some settingsBtn \<Rightarrow> (True, emit (Click settingsBtn) w)
           | None \<Rightarrow> (False, w)))"

text \<open>
  \<^verbatim>\<open>updateIndicatorInput\<close>.  The dialog is the last properties dialog, else the first
  element whose class contains \<^verbatim>\<open>dialog-\<close>.  The loop over the text areas stops at the first
  one whose surrounding text contains \<^verbatim>\<open>PASTE DATA\<close> or \<^verbatim>\<open>data\<close>, or whose placeholder
  contains \<^verbatim>\<open>data\<close>; reading \<^verbatim>\<open>includes\<close> of a missing placeholder throws.
\<close>

definition select_dialog :: "page \<Rightarrow> dialog option" where
  "select_dialog p =
     (if properties_dialogs p \<noteq> [] then Some (last (properties_dialogs p)) else class_dialog p)"

fun labelled_textarea :: "textarea list \<Rightarrow> exn + textarea option" where
  "labelled_textarea [] = Inr None"
| "labelled_textarea (ta # rest) =
     (if js_includes (ta_parent_text ta) ''PASTE DATA'' \<or> js_includes (ta_parent_text ta) ''data''
      then Inr (Some ta)
      else (case ta_placeholder ta of
              None \<Rightarrow> Inl (TypeError ''Cannot read properties of undefined'')
            | Some ph \<Rightarrow> if js_includes ph ''data'' then Inr (Some ta) else labelled_textarea rest))"

definition target_textarea :: "textarea list \<Rightarrow> exn + textarea option" where
  "target_textarea textareas =
     (case labelled_textarea textareas of
        Inl e \<Rightarrow> Inl e
      | Inr (Some ta) \<Rightarrow> Inr (Some ta)
      | Inr None \<Rightarrow> Inr (case textareas of [] \<Rightarrow> None | first # _ \<Rightarrow> Some first))"

text \<open>The loop over the buttons clicks the first one whose text contains \<^verbatim>\<open>OK\<close>.\<close>

fun ok_button :: "button list \<Rightarrow> elem option" where
  "ok_button [] = None"
| "ok_button (btn # rest) =
     (if js_includes (btn_text btn) ''OK'' \<or> js_includes (btn_text btn) ''Apply''
         \<or> js_includes (btn_text btn) ''Defaults''
      then (if js_includes (btn_text btn) ''OK'' then Some (btn_id btn) else ok_button rest)
      else ok_button rest)"

text \<open>
  The function runs in three stretches, parted by its two \<^verbatim>\<open>await sleep\<close>.  The stretch
  after the first sleep ends by returning, by throwing, or at the second sleep with the
  dialog in hand.
\<close>

datatype 's stretch = Returns bool | Throws exn | Suspends 's

definition updateIndicatorInput_write :: "page \<Rightarrow> string \<Rightarrow> client \<Rightarrow> dialog stretch \<times> client" where
  "updateIndicatorInput_write p data w =
     (case select_dialog p of
        None \<Rightarrow> (Returns False, emit (Log ''Options Levels: Dialog not found'') w)
      | Some dlg \<Rightarrow>
          (case target_textarea (dlg_textareas dlg) of
             Inl e \<Rightarrow> (Throws e, w)
           | Inr None \<Rightarrow> (Returns False, emit (Log ''Options Levels: Textarea not found in dialog'') w)
           | Inr (Some targetTextarea) \<Rightarrow>
               (let w1 = emit (SetValue (ta_id targetTextarea) data) w;
                    w2 = emit (Dispatch (ta_id targetTextarea) ''input'') w1;
                    w3 = emit (Dispatch (ta_id targetTextarea) ''change'') w2;
                    w4 = emit (Log ''Options Levels: Data updated in textarea'') w3
                in if autoClickApply CONFIG then (Suspends dlg, w4) else (Returns True, w4))))"

definition updateIndicatorInput_apply :: "dialog \<Rightarrow> client \<Rightarrow> bool \<times> client" where
  "updateIndicatorInput_apply dlg w =
     (case ok_button (dlg_buttons dlg) of
        Some btn \<Rightarrow> (True, emit (Log ''Options Levels: Settings applied'') (emit (Click btn) w))
      | None \<Rightarrow>
          (case dlg_submit dlg of
             Some submitBtn \<Rightarrow> (True, emit (Click submitBtn) w)
           | None \<Rightarrow> (True, w)))"

definition updateIndicatorInput :: "page \<Rightarrow> string \<Rightarrow> client \<Rightarrow> (exn + bool) \<times> client" where
  "updateIndicatorInput p data w =
     (case updateIndicatorInput_write p data (sleep 500 w) of
        (Returns b, w1) \<Rightarrow> (Inr b, w1)
      | (Throws e, w1) \<Rightarrow> (Inl e, w1)
      | (Suspends dlg, w1) \<Rightarrow>
          (case updateIndicatorInput_apply dlg (sleep 300 w1) of (b, w2) \<Rightarrow> (Inr b, w2)))"

text \<open>
  \<^verbatim>\<open>fetchAndUpdate\<close>.  Its \<^verbatim>\<open>catch\<close> block and what it does once \<^verbatim>\<open>updated\<close> is known
  are named, since more than one path reaches them; both end at the last line of the
  function, which clears the guard.
\<close>

definition add_indicator_hint :: string where
  "add_indicator_hint =
     ''Options Levels: Add the '' @ [CHR 0x22] @ ''Options Levels Tracker'' @ [CHR 0x22]
       @ '' indicator to your chart first''"

definition check_mark :: string where
  "check_mark = [CHR 0xE2, CHR 0x9C, CHR 0x93]"

definition catch_error :: "host \<Rightarrow> exn \<Rightarrow> client \<Rightarrow> client" where
  "catch_error h e w =
     (updateStatus h (''Error: '' @ error_message e) True
        (emit (LogError ''Options Levels Error:'' e) w))\<lparr>isUpdating := False\<rparr>"

definition after_update :: "host \<Rightarrow> string \<Rightarrow> bool \<Rightarrow> client \<Rightarrow> client" where
  "after_update h data updated w =
     (if updated then
        (let w1 = updateStatus h (''Options Levels: Updated '' @ check_mark) False w
         in if showNotifications CONFIG then
              emit (Notify ''Options Levels Updated''
                      (''New data loaded: '' @ take 50 (last (js_split NL data))) 3000) w1
            else w1)
      else updateStatus h ''Update failed - manual paste needed'' True w)\<lparr>isUpdating := False\<rparr>"

definition fetchAndUpdate_begin :: "host \<Rightarrow> client \<Rightarrow> client" where
  "fetchAndUpdate_begin h w =
     (let w1 = updateStatus h ''Updating...'' False (w\<lparr>isUpdating := True\<rparr>)
      in emit (Request (fetchData_url (clock w1))) w1)"

definition fetchAndUpdate_fetched :: "host \<Rightarrow> client \<Rightarrow> (string stretch) \<times> client" where
  "fetchAndUpdate_fetched h w =
     (case fetchData (response h) of
        Inl e \<Rightarrow> (Throws e, w)
      | Inr data \<Rightarrow>
          if data = lastData w then
            (Returns False, (updateStatus h ''Options Levels: No changes'' False w)\<lparr>isUpdating := False\<rparr>)
          else
            (case findIndicatorSettings (page h) (w\<lparr>lastData := data\<rparr>) of
               (True, w1) \<Rightarrow> (Suspends data, w1)
             | (False, w1) \<Rightarrow>
                 (Returns False,
                  (emit (Log add_indicator_hint)
                     (updateStatus h ''Indicator not found on chart'' True w1))\<lparr>isUpdating := False\<rparr>)))"

definition fetchAndUpdate :: "host \<Rightarrow> client \<Rightarrow> client" where
  "fetchAndUpdate h w =
     (if isUpdating w then w
      else
        (case fetchAndUpdate_fetched h (sleep (latency h) (fetchAndUpdate_begin h w)) of
           (Returns _, w1) \<Rightarrow> w1
         | (Throws e, w1) \<Rightarrow> catch_error h e w1
         | (Suspends data, w1) \<Rightarrow>
             (case updateIndicatorInput (page h) data w1 of
                (Inl e, w2) \<Rightarrow> catch_error h e w2
              | (Inr updated, w2) \<Rightarrow> after_update h data updated w2)))"

section \<open>Version 2.0\<close>

record config2 = config_base +
  dataUrl :: string

definition CONFIG2 :: config2 where
  "CONFIG2 = \<lparr>updateIntervalMs = 5 * 60 * 1000,
     indicatorName = ''Options Levels'',
     showNotifications = True,
     dataUrl = ''https://raw.githubusercontent.com/mabkkhome-lgtm/deribit-options-data/main/data/btc_levels.csv''\<rparr>"

text \<open>
  The page of version 2.0.  Its loop over the legend items goes on after an item whose
  dialog or submit button was not found, so the dialog is a field of the item: what
  \<^verbatim>\<open>document.querySelector('[data-dialog-name="indicator-properties-dialog"]')\<close> returns
  600 ms after the click on that item's settings button.  An input of the dialog
  (\<^verbatim>\<open>input[type="text"], input[type="number"]\<close>) has the text of its closest
  \<^verbatim>\<open>[class*="cell"]\<close> ancestor or else of its parent, \<open>None\<close> without either; the submit
  button is the \<^verbatim>\<open>[data-name="submit-button"]\<close> the dialog has 200 ms after the writes.

  \<^verbatim>\<open>parseFloat\<close> and \<^verbatim>\<open>Number.prototype.toLocaleString\<close> are the runtime's; the script is
  embedded for any such pair of functions.
\<close>

record input_field =
  in_id :: elem
  in_row_text :: "string option"

record dialog2 =
  dlg2_inputs :: "input_field list"
  dlg2_submit :: "elem option"

record legend_item2 = legend_item +
  opened_dialog :: "dialog2 option"

record host2 = host_base +
  legendItems :: "legend_item2 list"
  parseFloat :: "string \<Rightarrow> jsnum"
  toLocaleString :: "jsnum \<Rightarrow> string"

text \<open>
  The object \<^verbatim>\<open>state\<close> (its \<^verbatim>\<open>isUpdating\<close> is the guard of \<open>client_base\<close>) and the status
  panel: the text of \<^verbatim>\<open>#ol-resistance\<close> and \<^verbatim>\<open>#ol-support\<close>, the text and class of
  \<^verbatim>\<open>#ol-status\<close>, each \<open>None\<close> while the element is not in the document.
\<close>

record client2 = client_base +
  resistance :: jsnum
  support :: jsnum
  lastUpdate :: "nat option"
  ol_resistance :: "string option"
  ol_support :: "string option"
  ol_status :: "(string \<times> string) option"

definition updateStatusPanel :: "host2 \<Rightarrow> client2 \<Rightarrow> client2" where
  "updateStatusPanel h w =
     w\<lparr>ol_resistance := map_option (\<lambda>_. ''$'' @ toLocaleString h (resistance w)) (ol_resistance w),
       ol_support := map_option (\<lambda>_. ''$'' @ toLocaleString h (support w)) (ol_support w),
       ol_status := map_option (\<lambda>_. (''Updated: '' @ time_string h (clock w), ''ol-status success''))
                      (ol_status w)\<rparr>"

definition setStatus :: "string \<Rightarrow> bool \<Rightarrow> client2 \<Rightarrow> client2" where
  "setStatus txt isError w =
     w\<lparr>ol_status := map_option (\<lambda>_. (txt, ''ol-status '' @ (if isError then ''error'' else [])))
                      (ol_status w)\<rparr>"

definition fetchData2_url :: "nat \<Rightarrow> string" where
  "fetchData2_url now = dataUrl CONFIG2 @ ''?t='' @ decimal now"

fun fetchData2 :: "(string \<Rightarrow> jsnum) \<Rightarrow> http_result \<Rightarrow> exn + ledger_record" where
  "fetchData2 pf (Loaded status responseText) =
     (if status = 200 then
        (let lines = js_split NL (js_trim responseText)
         in if length lines > 1 then
              (let lastLine = lines ! (length lines - 1);
                   parts = js_split (CHR '','') lastLine
               in if length parts \<ge> 3 then
                    Inr \<lparr>rec_date = parts ! 0,
                         rec_resistance = pf (parts ! 1),
                         rec_support = pf (parts ! 2)\<rparr>
                  else Inl (Error ''Invalid data format''))
            else Inl (Error ''No data''))
      else Inl (Error (''HTTP '' @ decimal status)))"
| "fetchData2 pf Failed = Inl ErrorResponse"

definition setInputValue :: "input_field \<Rightarrow> jsnum \<Rightarrow> client2 \<Rightarrow> client2" where
  "setInputValue input v w =
     emit (Dispatch (in_id input) ''change'')
       (emit (Dispatch (in_id input) ''input'')
          (emit (SetNumber (in_id input) v) w))"

text \<open>The loop over the inputs of the dialog.\<close>

fun write_inputs :: "jsnum \<Rightarrow> jsnum \<Rightarrow> input_field list \<Rightarrow> client2 \<Rightarrow> client2" where
  "write_inputs r s [] w = w"
| "write_inputs r s (input # rest) w =
     (let label = (case in_row_text input of Some t \<Rightarrow> toLowerCase t | None \<Rightarrow> [])
      in if js_includes label ''resistance'' \<or> js_includes label ''high'' then
           write_inputs r s rest (setInputValue input r w)
         else if js_includes label ''support'' \<or> js_includes label ''low'' then
           write_inputs r s rest (setInputValue input s w)
         else write_inputs r s rest w)"

text \<open>
  \<^verbatim>\<open>updateIndicatorSettings\<close>: the loop over the legend items, with its two sleeps.  An item
  whose title does not contain \<^verbatim>\<open>options\<close>, or that has no settings button, no dialog or
  no submit button, lets the loop go on with the next item.
\<close>

fun updateIndicatorSettings :: "jsnum \<Rightarrow> jsnum \<Rightarrow> legend_item2 list \<Rightarrow> client2 \<Rightarrow> bool \<times> client2" where
  "updateIndicatorSettings r s [] w = (False, w)"
| "updateIndicatorSettings r s (item # rest) w =
     (case legend_title item of
        None \<Rightarrow> updateIndicatorSettings r s rest w
      | Some t \<Rightarrow>
          if js_includes (toLowerCase t) ''options'' then
            (case legend_settings item of
               None \<Rightarrow> updateIndicatorSettings r s rest w
             | Some settingsBtn \<Rightarrow>
                 (case opened_dialog item of
                    None \<Rightarrow> updateIndicatorSettings r s rest (sleep 600 (emit (Click settingsBtn) w))
                  | Some dlg \<Rightarrow>
                      (case dlg2_submit dlg of
                         Some okBtn \<Rightarrow>
                           (True,
                            emit (Click okBtn)
                              (sleep 200
                                 (write_inputs r s (dlg2_inputs dlg)
                                    (sleep 600 (emit (Click settingsBtn) w)))))
                       | None \<Rightarrow>
                           updateIndicatorSettings r s rest
                             (sleep 200
                                (write_inputs r s (dlg2_inputs dlg)
                                   (sleep 600 (emit (Click settingsBtn) w)))))))
          else updateIndicatorSettings r s rest w)"

text \<open>\<^verbatim>\<open>fetchAndUpdate\<close> of version 2.0.\<close>

definition catch_error2 :: "exn \<Rightarrow> client2 \<Rightarrow> client2" where
  "catch_error2 e w =
     (setStatus (''Error: '' @ error_message e) True
        (emit (LogError ''Options Levels error:'' e) w))\<lparr>isUpdating := False\<rparr>"

definition after_update2 :: "host2 \<Rightarrow> ledger_record \<Rightarrow> bool \<Rightarrow> client2 \<Rightarrow> client2" where
  "after_update2 h data updated w =
     (emit (LogRecord ''Options Levels updated:'' data)
        (if showNotifications CONFIG2 \<and> updated then
           emit (Notify ''Options Levels Updated''
                   (''R: $'' @ toLocaleString h (rec_resistance data) @ '' | S: $''
                      @ toLocaleString h (rec_support data)) 3000) w
         else w))\<lparr>isUpdating := False\<rparr>"

definition fetchAndUpdate2_begin :: "client2 \<Rightarrow> client2" where
  "fetchAndUpdate2_begin w =
     (let w1 = setStatus ''Updating...'' False (w\<lparr>isUpdating := True\<rparr>)
      in emit (Request (fetchData2_url (clock w1))) w1)"

definition record_changed :: "ledger_record \<Rightarrow> client2 \<Rightarrow> bool" where
  "record_changed data w =
     (strict_neq (rec_resistance data) (resistance w) \<or> strict_neq (rec_support data) (support w))"

definition store_record :: "host2 \<Rightarrow> ledger_record \<Rightarrow> client2 \<Rightarrow> client2" where
  "store_record h data w =
     updateStatusPanel h
       (w\<lparr>resistance := rec_resistance data, support := rec_support data, lastUpdate := Some (clock w)\<rparr>)"

definition fetchAndUpdate2 :: "host2 \<Rightarrow> client2 \<Rightarrow> client2" where
  "fetchAndUpdate2 h w =
     (if isUpdating w then w
      else
        (let w1 = sleep (latency h) (fetchAndUpdate2_begin w)
         in case fetchData2 (parseFloat h) (response h) of
              Inl e \<Rightarrow> catch_error2 e w1
            | Inr data \<Rightarrow>
                if record_changed data w1 then
                  (case updateIndicatorSettings (rec_resistance data) (rec_support data)
                          (legendItems h) (store_record h data w1) of
                     (updated, w2) \<Rightarrow> after_update2 h data updated w2)
                else (setStatus ''No changes'' False w1)\<lparr>isUpdating := False\<rparr>))"

section \<open>The two functions as resumable tasks\<close>

text \<open>
  An \<^verbatim>\<open>async\<close> function runs without interruption up to its next \<^verbatim>\<open>await\<close>; there it is
  suspended, and other callbacks (the timer, a click on the status box) may run before it
  is resumed.  A task is the point at which an invocation of \<^verbatim>\<open>fetchAndUpdate\<close> is
  suspended, with the local variables it still needs; \<open>start\<close> is the invocation up to its
  first \<^verbatim>\<open>await\<close>, \<open>resume\<close> the stretch from one \<^verbatim>\<open>await\<close> to the next.
\<close>

datatype task = AwaitFetch | AwaitDialog string | AwaitApply string dialog | Done

definition start :: "host \<Rightarrow> client \<Rightarrow> task \<times> client" where
  "start h w = (if isUpdating w then (Done, w) else (AwaitFetch, fetchAndUpdate_begin h w))"

fun resume :: "host \<Rightarrow> task \<Rightarrow> client \<Rightarrow> task \<times> client" where
  "resume h AwaitFetch w =
     (case fetchAndUpdate_fetched h (sleep (latency h) w) of
        (Returns _, w1) \<Rightarrow> (Done, w1)
      | (Throws e, w1) \<Rightarrow> (Done, catch_error h e w1)
      | (Suspends data, w1) \<Rightarrow> (AwaitDialog data, w1))"
| "resume h (AwaitDialog data) w =
     (case updateIndicatorInput_write (page h) data (sleep 500 w) of
        (Returns b, w1) \<Rightarrow> (Done, after_update h data b w1)
      | (Throws e, w1) \<Rightarrow> (Done, catch_error h e w1)
      | (Suspends dlg, w1) \<Rightarrow> (AwaitApply data dlg, w1))"
| "resume h (AwaitApply data dlg) w =
     (case updateIndicatorInput_apply dlg (sleep 300 w) of
        (b, w1) \<Rightarrow> (Done, after_update h data b w1))"
| "resume h Done w = (Done, w)"

fun run :: "nat \<Rightarrow> host \<Rightarrow> task \<times> client \<Rightarrow> task \<times> client" where
  "run 0 h tw = tw"
| "run (Suc n) h tw = run n h (resume h (fst tw) (snd tw))"

datatype task2 =
    AwaitFetch2
  | AwaitDialog2 ledger_record legend_item2 "legend_item2 list"
  | AwaitSubmit2 ledger_record dialog2 "legend_item2 list"
  | Done2

text \<open>The loop of \<^verbatim>\<open>updateIndicatorSettings\<close> from the items still to visit up to its next
  sleep, or to its end, where \<^verbatim>\<open>fetchAndUpdate\<close> takes over with \<^verbatim>\<open>updated = false\<close>.\<close>

fun updateIndicatorSettings_next :: "host2 \<Rightarrow> ledger_record \<Rightarrow> legend_item2 list \<Rightarrow> client2 \<Rightarrow> task2 \<times> client2" where
  "updateIndicatorSettings_next h data [] w = (Done2, after_update2 h data False w)"
| "updateIndicatorSettings_next h data (item # rest) w =
     (case legend_title item of
        None \<Rightarrow> updateIndicatorSettings_next h data rest w
      | Some t \<Rightarrow>
          if js_includes (toLowerCase t) ''options'' then
            (case legend_settings item of
               None \<Rightarrow> updateIndicatorSettings_next h data rest w
             | Some settingsBtn \<Rightarrow> (AwaitDialog2 data item rest, emit (Click settingsBtn) w))
          else updateIndicatorSettings_next h data rest w)"

definition start2 :: "client2 \<Rightarrow> task2 \<times> client2" where
  "start2 w = (if isUpdating w then (Done2, w) else (AwaitFetch2, fetchAndUpdate2_begin w))"

fun resume2 :: "host2 \<Rightarrow> task2 \<Rightarrow> client2 \<Rightarrow> task2 \<times> client2" where
  "resume2 h AwaitFetch2 w =
     (case fetchData2 (parseFloat h) (response h) of
        Inl e \<Rightarrow> (Done2, catch_error2 e (sleep (latency h) w))
      | Inr data \<Rightarrow>
          if record_changed data (sleep (latency h) w) then
            updateIndicatorSettings_next h data (legendItems h) (store_record h data (sleep (latency h) w))
          else (Done2, (setStatus ''No changes'' False (sleep (latency h) w))\<lparr>isUpdating := False\<rparr>))"
| "resume2 h (AwaitDialog2 data item rest) w =
     (case opened_dialog item of
        None \<Rightarrow> updateIndicatorSettings_next h data rest (sleep 600 w)
      | Some dlg \<Rightarrow>
          (AwaitSubmit2 data dlg rest,
           write_inputs (rec_resistance data) (rec_support data) (dlg2_inputs dlg) (sleep 600 w)))"
| "resume2 h (AwaitSubmit2 data dlg rest) w =
     (case dlg2_submit dlg of
        Some okBtn \<Rightarrow> (Done2, after_update2 h data True (emit (Click okBtn) (sleep 200 w)))
      | None \<Rightarrow> updateIndicatorSettings_next h data rest (sleep 200 w))"
| "resume2 h Done2 w = (Done2, w)"

fun run2 :: "nat \<Rightarrow> host2 \<Rightarrow> task2 \<times> client2 \<Rightarrow> task2 \<times> client2" where
  "run2 0 h tw = tw"
| "run2 (Suc n) h tw = run2 n h (resume2 h (fst tw) (snd tw))"

section \<open>Example inputs\<close>

text \<open>
  A ledger of one record and the same ledger a day later; the client of version 1.0 as
  \<^verbatim>\<open>init\<close> leaves it (status box created, nothing fetched yet); charts whose legend shows
  one indicator of a given name; and settings dialogs with and without a text area, an OK
  button and a submit button.
\<close>

definition ledger_header :: string where
  "ledger_header = ''date,high,low,buyerGamma,sellerGamma''"

definition ledger_day1 :: string where
  "ledger_day1 = ''18/12/2024,98500,95200,99000,94500''"

definition ledger_day2 :: string where
  "ledger_day2 = ''19/12/2024,99200,95800,99800,95000''"

definition ledger_csv :: string where
  "ledger_csv = ledger_header @ [NL] @ ledger_day1 @ [NL]"

definition ledger_csv_next :: string where
  "ledger_csv_next = ledger_header @ [NL] @ ledger_day1 @ [NL] @ ledger_day2 @ [NL]"

definition ledger_csv_repeat :: string where
  "ledger_csv_repeat = ledger_header @ [NL] @ ledger_day1 @ [NL] @ ledger_day1 @ [NL]"

definition ledger_csv_same_levels :: string where
  "ledger_csv_same_levels = ledger_header @ [NL] @ ''19/12/2024,98500,95200,99800,95000'' @ [NL]"

definition ledger_csv_corrupt :: string where
  "ledger_csv_corrupt = ledger_header @ [NL] @ ''19/12/2024,n/a,95800,99800,95000'' @ [NL]"

definition ledger_csv_suffixed :: string where
  "ledger_csv_suffixed = ledger_header @ [NL] @ ''19/12/2024,98500abc,95200usd,1,2'' @ [NL]"

definition init_client :: client where
  "init_client = \<lparr>isUpdating = False, clock = 0, effects = [], lastData = [],
     status_dot = Some ''#4caf50'', status_text = Some ''Options Levels: Active'',
     status_details = Some []\<rparr>"

definition data_textarea :: textarea where
  "data_textarea = \<lparr>ta_id = 20, ta_parent_text = ''PASTE DATA HERE'', ta_placeholder = Some []\<rparr>"

definition level_textarea :: textarea where
  "level_textarea = \<lparr>ta_id = 22, ta_parent_text = ''Resistance'', ta_placeholder = Some []\<rparr>"

definition odd_textarea :: textarea where
  "odd_textarea = \<lparr>ta_id = 21, ta_parent_text = ''Notes'', ta_placeholder = None\<rparr>"

definition dialog_with_ok :: dialog where
  "dialog_with_ok = \<lparr>dlg_textareas = [data_textarea],
     dlg_buttons = [\<lparr>btn_id = 30, btn_text = ''Cancel''\<rparr>, \<lparr>btn_id = 31, btn_text = ''OK''\<rparr>],
     dlg_submit = Some 31\<rparr>"

definition dialog_without_confirm :: dialog where
  "dialog_without_confirm = \<lparr>dlg_textareas = [data_textarea], dlg_buttons = [], dlg_submit = None\<rparr>"

definition dialog_without_textarea :: dialog where
  "dialog_without_textarea = \<lparr>dlg_textareas = [],
     dlg_buttons = [\<lparr>btn_id = 31, btn_text = ''OK''\<rparr>], dlg_submit = Some 31\<rparr>"

definition dialog_odd_textarea :: dialog where
  "dialog_odd_textarea = \<lparr>dlg_textareas = [odd_textarea], dlg_buttons = [], dlg_submit = None\<rparr>"

definition dialog_apply_ok :: dialog where
  "dialog_apply_ok = \<lparr>dlg_textareas = [data_textarea],
     dlg_buttons = [\<lparr>btn_id = 30, btn_text = ''Cancel''\<rparr>, \<lparr>btn_id = 32, btn_text = ''Apply''\<rparr>,
                    \<lparr>btn_id = 31, btn_text = ''OK''\<rparr>, \<lparr>btn_id = 34, btn_text = ''OK''\<rparr>],
     dlg_submit = Some 33\<rparr>"

definition dialog_with_submit :: dialog where
  "dialog_with_submit = \<lparr>dlg_textareas = [data_textarea],
     dlg_buttons = [\<lparr>btn_id = 30, btn_text = ''Cancel''\<rparr>, \<lparr>btn_id = 32, btn_text = ''Apply''\<rparr>],
     dlg_submit = Some 33\<rparr>"

definition chart :: "string \<Rightarrow> dialog list \<Rightarrow> page" where
  "chart name dlgs = \<lparr>legends = [\<lparr>legend_title = Some name, legend_settings = Some 7\<rparr>],
     indicator_items = [], properties_dialogs = dlgs, class_dialog = None\<rparr>"

definition example_host :: "http_result \<Rightarrow> page \<Rightarrow> host" where
  "example_host r p = \<lparr>response = r, latency = 120, time_string = decimal, page = p\<rparr>"

text \<open>
  For version 2.0: a runtime whose \<^verbatim>\<open>parseFloat\<close> reads a leading run of digits (and gives
  \<open>NaN\<close> when there is none) and whose \<^verbatim>\<open>toLocaleString\<close> prints the integer part, which
  is all the examples need; the client as \<^verbatim>\<open>init\<close> leaves it; a settings dialog with a
  resistance and a support input.
\<close>

definition digit_of :: "char \<Rightarrow> nat option" where
  "digit_of c = map_of (zip ''0123456789'' [0 ..< 10]) c"

definition parse_digits :: "string \<Rightarrow> jsnum" where
  "parse_digits s =
     (let ds = takeWhile (\<lambda>c. digit_of c \<noteq> None) s
      in if ds = [] then NaN
         else Num (of_nat (foldl (\<lambda>n c. 10 * n + the (digit_of c)) 0 ds)))"

definition print_number :: "jsnum \<Rightarrow> string" where
  "print_number v =
     (case v of NaN \<Rightarrow> ''NaN'' | PosInfinity \<Rightarrow> ''Infinity'' | NegInfinity \<Rightarrow> ''-Infinity''
      | Num q \<Rightarrow> decimal (nat \<lfloor>q\<rfloor>))"

definition init_client2 :: client2 where
  "init_client2 = \<lparr>isUpdating = False, clock = 0, effects = [],
     resistance = Num 0, support = Num 0, lastUpdate = None,
     ol_resistance = Some ''--'', ol_support = Some ''--'',
     ol_status = Some (''Loading...'', ''ol-status'')\<rparr>"

definition levels_dialog :: dialog2 where
  "levels_dialog = \<lparr>dlg2_inputs = [\<lparr>in_id = 40, in_row_text = Some ''Resistance''\<rparr>,
                                    \<lparr>in_id = 41, in_row_text = Some ''Support''\<rparr>],
     dlg2_submit = Some 50\<rparr>"

definition legend2 :: "string \<Rightarrow> dialog2 option \<Rightarrow> legend_item2" where
  "legend2 name dlg = \<lparr>legend_title = Some name, legend_settings = Some 7, opened_dialog = dlg\<rparr>"

definition example_host2 :: "http_result \<Rightarrow> legend_item2 list \<Rightarrow> host2" where
  "example_host2 r items = \<lparr>response = r, latency = 120, time_string = decimal,
     legendItems = items, parseFloat = parse_digits, toLocaleString = print_number\<rparr>"

definition levels_dialog_no_submit :: dialog2 where
  "levels_dialog_no_submit = \<lparr>dlg2_inputs = [\<lparr>in_id = 42, in_row_text = Some ''Resistance''\<rparr>],
     dlg2_submit = None\<rparr>"

definition unlabelled_dialog :: dialog2 where
  "unlabelled_dialog = \<lparr>dlg2_inputs = [\<lparr>in_id = 40, in_row_text = Some ''Length''\<rparr>,
                                        \<lparr>in_id = 41, in_row_text = None\<rparr>],
     dlg2_submit = Some 50\<rparr>"

section \<open>The selections of the drivers, stated on their own\<close>

text \<open>
  What makes a text area of version 1.0 the labelled one, and what version 2.0 does to one
  input of the dialog; the loops of the scripts are compared with these below.
\<close>

definition data_label :: "textarea \<Rightarrow> bool" where
  "data_label ta =
     (js_includes (ta_parent_text ta) ''PASTE DATA'' \<or> js_includes (ta_parent_text ta) ''data''
      \<or> (case ta_placeholder ta of Some ph \<Rightarrow> js_includes ph ''data'' | None \<Rightarrow> False))"

definition input_label :: "input_field \<Rightarrow> string" where
  "input_label input = (case in_row_text input of Some t \<Rightarrow> toLowerCase t | None \<Rightarrow> [])"

definition input_effects :: "jsnum \<Rightarrow> jsnum \<Rightarrow> input_field \<Rightarrow> effect list" where
  "input_effects r s input =
     (if js_includes (input_label input) ''resistance'' \<or> js_includes (input_label input) ''high'' then
        [SetNumber (in_id input) r, Dispatch (in_id input) ''input'', Dispatch (in_id input) ''change'']
      else if js_includes (input_label input) ''support'' \<or> js_includes (input_label input) ''low'' then
        [SetNumber (in_id input) s, Dispatch (in_id input) ''input'', Dispatch (in_id input) ''change'']
      else [])"

text \<open>
  The legend items of version 2.0 whose settings button the loop clicks, and those among
  them whose dialog comes with a submit button; the characters that can occur in the
  decimal numeral of a finite number.
\<close>

definition opens_settings :: "legend_item2 \<Rightarrow> bool" where
  "opens_settings item =
     ((case legend_title item of Some t \<Rightarrow> js_includes (toLowerCase t) ''options'' | None \<Rightarrow> False)
      \<and> legend_settings item \<noteq> None)"

definition commits :: "legend_item2 \<Rightarrow> bool" where
  "commits item =
     (opens_settings item
      \<and> (case opened_dialog item of Some dlg \<Rightarrow> dlg2_submit dlg \<noteq> None | None \<Rightarrow> False))"

definition numeral_text :: "string \<Rightarrow> bool" where
  "numeral_text s = (s \<noteq> [] \<and> list_all (\<lambda>c. c \<in> set ''0123456789+-.eE'') s)"

section \<open>What the helper functions leave alone\<close>

lemma emit_fields [simp]:
  "isUpdating (emit e w) = isUpdating w" "clock (emit e w) = clock w"
  "effects (emit e w) = effects w @ [e]"
  by (simp_all add: emit_def)

lemma sleep_fields [simp]:
  "isUpdating (sleep ms w) = isUpdating w" "clock (sleep ms w) = clock w + ms"
  "effects (sleep ms w) = effects w"
  by (simp_all add: sleep_def)

lemma emit_client_fields [simp]:
  "lastData (emit e w) = lastData w" "status_text (emit e w) = status_text w"
  "status_dot (emit e w) = status_dot w" "status_details (emit e w) = status_details w"
  by (simp_all add: emit_def)

lemma sleep_client_fields [simp]:
  "lastData (sleep ms w) = lastData w" "status_text (sleep ms w) = status_text w"
  "status_dot (sleep ms w) = status_dot w" "status_details (sleep ms w) = status_details w"
  by (simp_all add: sleep_def)

lemma emit_client2_fields [simp]:
  "resistance (emit e w) = resistance w" "support (emit e w) = support w"
  "lastUpdate (emit e w) = lastUpdate w" "ol_status (emit e w) = ol_status w"
  "ol_resistance (emit e w) = ol_resistance w" "ol_support (emit e w) = ol_support w"
  by (simp_all add: emit_def)

lemma sleep_client2_fields [simp]:
  "resistance (sleep ms w) = resistance w" "support (sleep ms w) = support w"
  "lastUpdate (sleep ms w) = lastUpdate w" "ol_status (sleep ms w) = ol_status w"
  "ol_resistance (sleep ms w) = ol_resistance w" "ol_support (sleep ms w) = ol_support w"
  by (simp_all add: sleep_def)

lemma updateStatus_fields [simp]:
  "isUpdating (updateStatus h t b w) = isUpdating w" "clock (updateStatus h t b w) = clock w"
  "effects (updateStatus h t b w) = effects w" "lastData (updateStatus h t b w) = lastData w"
  by (simp_all add: updateStatus_def)

lemma setStatus_fields [simp]:
  "isUpdating (setStatus t b w) = isUpdating w" "clock (setStatus t b w) = clock w"
  "effects (setStatus t b w) = effects w" "resistance (setStatus t b w) = resistance w"
  "support (setStatus t b w) = support w" "lastUpdate (setStatus t b w) = lastUpdate w"
  "ol_resistance (setStatus t b w) = ol_resistance w" "ol_support (setStatus t b w) = ol_support w"
  by (simp_all add: setStatus_def)

lemma updateStatusPanel_fields [simp]:
  "isUpdating (updateStatusPanel h w) = isUpdating w" "clock (updateStatusPanel h w) = clock w"
  "effects (updateStatusPanel h w) = effects w" "resistance (updateStatusPanel h w) = resistance w"
  "support (updateStatusPanel h w) = support w" "lastUpdate (updateStatusPanel h w) = lastUpdate w"
  by (simp_all add: updateStatusPanel_def)

lemma setInputValue_fields [simp]:
  "isUpdating (setInputValue i v w) = isUpdating w" "clock (setInputValue i v w) = clock w"
  "resistance (setInputValue i v w) = resistance w" "support (setInputValue i v w) = support w"
  "lastUpdate (setInputValue i v w) = lastUpdate w" "ol_status (setInputValue i v w) = ol_status w"
  "ol_resistance (setInputValue i v w) = ol_resistance w" "ol_support (setInputValue i v w) = ol_support w"
  "effects (setInputValue i v w) =
     effects w @ [SetNumber (in_id i) v, Dispatch (in_id i) ''input'', Dispatch (in_id i) ''change'']"
  by (simp_all add: setInputValue_def)

lemma write_inputs_fields [simp]:
  "isUpdating (write_inputs r s ins w) = isUpdating w" "clock (write_inputs r s ins w) = clock w"
  "resistance (write_inputs r s ins w) = resistance w" "support (write_inputs r s ins w) = support w"
  "lastUpdate (write_inputs r s ins w) = lastUpdate w" "ol_status (write_inputs r s ins w) = ol_status w"
  "ol_resistance (write_inputs r s ins w) = ol_resistance w" "ol_support (write_inputs r s ins w) = ol_support w"
  by (induction r s ins w rule: write_inputs.induct; simp add: Let_def)+

lemma updateIndicatorSettings_fields [simp]:
  "isUpdating (snd (updateIndicatorSettings r s items w)) = isUpdating w"
  "resistance (snd (updateIndicatorSettings r s items w)) = resistance w"
  "support (snd (updateIndicatorSettings r s items w)) = support w"
  "lastUpdate (snd (updateIndicatorSettings r s items w)) = lastUpdate w"
  "ol_status (snd (updateIndicatorSettings r s items w)) = ol_status w"
  "ol_resistance (snd (updateIndicatorSettings r s items w)) = ol_resistance w"
  "ol_support (snd (updateIndicatorSettings r s items w)) = ol_support w"
  by (induction r s items w rule: updateIndicatorSettings.induct; simp split: option.splits)+

lemma findIndicatorSettings_fields [simp]:
  "isUpdating (snd (findIndicatorSettings p w)) = isUpdating w"
  "clock (snd (findIndicatorSettings p w)) = clock w"
  "lastData (snd (findIndicatorSettings p w)) = lastData w"
  "status_text (snd (findIndicatorSettings p w)) = status_text w"
  "status_dot (snd (findIndicatorSettings p w)) = status_dot w"
  "status_details (snd (findIndicatorSettings p w)) = status_details w"
  by (simp_all add: findIndicatorSettings_def split: option.splits)

lemma updateIndicatorInput_write_fields [simp]:
  "isUpdating (snd (updateIndicatorInput_write p d w)) = isUpdating w"
  "clock (snd (updateIndicatorInput_write p d w)) = clock w"
  "lastData (snd (updateIndicatorInput_write p d w)) = lastData w"
  "status_text (snd (updateIndicatorInput_write p d w)) = status_text w"
  "status_dot (snd (updateIndicatorInput_write p d w)) = status_dot w"
  "status_details (snd (updateIndicatorInput_write p d w)) = status_details w"
  by (simp_all add: updateIndicatorInput_write_def Let_def split: option.splits sum.splits)

lemma updateIndicatorInput_apply_fields [simp]:
  "isUpdating (snd (updateIndicatorInput_apply dlg w)) = isUpdating w"
  "clock (snd (updateIndicatorInput_apply dlg w)) = clock w"
  "lastData (snd (updateIndicatorInput_apply dlg w)) = lastData w"
  "status_text (snd (updateIndicatorInput_apply dlg w)) = status_text w"
  "status_dot (snd (updateIndicatorInput_apply dlg w)) = status_dot w"
  "status_details (snd (updateIndicatorInput_apply dlg w)) = status_details w"
  by (simp_all add: updateIndicatorInput_apply_def split: option.splits)

lemma updateIndicatorInput_fields [simp]:
  "isUpdating (snd (updateIndicatorInput p d w)) = isUpdating w"
  "lastData (snd (updateIndicatorInput p d w)) = lastData w"
  "status_text (snd (updateIndicatorInput p d w)) = status_text w"
  "status_dot (snd (updateIndicatorInput p d w)) = status_dot w"
  "status_details (snd (updateIndicatorInput p d w)) = status_details w"
proof -
  obtain st w1 where a: "updateIndicatorInput_write p d (sleep 500 w) = (st, w1)"
    by (cases "updateIndicatorInput_write p d (sleep 500 w)")
  have w1: "isUpdating w1 = isUpdating w" "lastData w1 = lastData w" "status_text w1 = status_text w"
    "status_dot w1 = status_dot w" "status_details w1 = status_details w"
    using updateIndicatorInput_write_fields [of p d "sleep 500 w"] by (simp_all add: a)
  show "isUpdating (snd (updateIndicatorInput p d w)) = isUpdating w"
    "lastData (snd (updateIndicatorInput p d w)) = lastData w"
    "status_text (snd (updateIndicatorInput p d w)) = status_text w"
    "status_dot (snd (updateIndicatorInput p d w)) = status_dot w"
    "status_details (snd (updateIndicatorInput p d w)) = status_details w"
    using w1 updateIndicatorInput_apply_fields
    by (cases st; simp add: updateIndicatorInput_def a split: prod.splits; metis snd_conv sleep_fields sleep_client_fields)+
qed

lemma catch_error_guard [simp]: "isUpdating (catch_error h e w) = False"
  by (simp add: catch_error_def)

lemma after_update_guard [simp]: "isUpdating (after_update h d b w) = False"
  by (simp add: after_update_def)

lemma catch_error2_guard [simp]: "isUpdating (catch_error2 e w) = False"
  by (simp add: catch_error2_def)

lemma after_update2_guard [simp]: "isUpdating (after_update2 h d b w) = False"
  by (simp add: after_update2_def)

lemma fetched_returns_guard:
  "fetchAndUpdate_fetched h w = (Returns b, w1) \<Longrightarrow> isUpdating w1 = False"
  by (auto simp: fetchAndUpdate_fetched_def findIndicatorSettings_def
      split: sum.splits if_splits option.splits)

lemma fetchAndUpdate_guard: "\<not> isUpdating w \<Longrightarrow> \<not> isUpdating (fetchAndUpdate h w)"
  by (auto simp: fetchAndUpdate_def dest: fetched_returns_guard
      split: prod.splits stretch.splits sum.splits)

lemma fetchAndUpdate2_guard: "\<not> isUpdating w \<Longrightarrow> \<not> isUpdating (fetchAndUpdate2 h w)"
  by (auto simp: fetchAndUpdate2_def Let_def split: prod.splits sum.splits)

section \<open>The examples, run\<close>

lemmas example_defs =
  example_host_def init_client_def ledger_csv_def ledger_csv_next_def ledger_header_def
  ledger_csv_repeat_def ledger_csv_same_levels_def ledger_csv_corrupt_def level_textarea_def
  ledger_day1_def ledger_day2_def chart_def dialog_with_ok_def dialog_without_confirm_def
  dialog_without_textarea_def dialog_odd_textarea_def data_textarea_def odd_textarea_def
  example_host2_def init_client2_def levels_dialog_def legend2_def parse_digits_def
  digit_of_def print_number_def unlabelled_dialog_def levels_dialog_no_submit_def
  dialog_apply_ok_def dialog_with_submit_def ledger_csv_suffixed_def

lemmas script_defs =
  fetchAndUpdate_def fetchAndUpdate_begin_def fetchAndUpdate_fetched_def
  findIndicatorSettings_def updateIndicatorInput_def updateIndicatorInput_write_def
  updateIndicatorInput_apply_def select_dialog_def target_textarea_def after_update_def
  catch_error_def updateStatus_def CONFIG_def js_trim_def is_space_def emit_def sleep_def

lemmas script2_defs =
  fetchAndUpdate2_def fetchAndUpdate2_begin_def record_changed_def strict_neq_def
  store_record_def after_update2_def catch_error2_def setStatus_def updateStatusPanel_def
  setInputValue_def toLowerCase_def lower_char_def CONFIG2_def js_trim_def is_space_def
  emit_def sleep_def

lemma fetchData_ledger_csv: "fetchData (Loaded 200 ledger_csv) = Inr ledger_day1"
  by (simp add: example_defs js_trim_def is_space_def)

lemma fetchData2_ledger_csv:
  "fetchData2 parse_digits (Loaded 200 ledger_csv)
     = Inr \<lparr>rec_date = ''18/12/2024'', rec_resistance = Num 98500, rec_support = Num 95200\<rparr>"
  by (simp add: example_defs js_trim_def is_space_def upt_rec)

lemma run_updated:
  "fetchAndUpdate (example_host (Loaded 200 ledger_csv) (chart ''Options Levels Tracker'' [dialog_with_ok]))
       init_client
   = \<lparr>isUpdating = False, clock = 920,
      effects = [Request (fetchData_url 0), Click 7, SetValue 20 ledger_day1,
        Dispatch 20 ''input'', Dispatch 20 ''change'',
        Log ''Options Levels: Data updated in textarea'', Click 31,
        Log ''Options Levels: Settings applied'',
        Notify ''Options Levels Updated'' (''New data loaded: '' @ ledger_day1) 3000],
      lastData = ledger_day1, status_dot = Some ''#4caf50'',
      status_text = Some (''Options Levels: Updated '' @ check_mark),
      status_details = Some (''Last update: '' @ decimal 920)\<rparr>"
  by (simp add: script_defs example_defs)

lemma run_no_confirm:
  "fetchAndUpdate (example_host (Loaded 200 ledger_csv) (chart ''Options Levels Tracker'' [dialog_without_confirm]))
       init_client
   = \<lparr>isUpdating = False, clock = 920,
      effects = [Request (fetchData_url 0), Click 7, SetValue 20 ledger_day1,
        Dispatch 20 ''input'', Dispatch 20 ''change'',
        Log ''Options Levels: Data updated in textarea'',
        Notify ''Options Levels Updated'' (''New data loaded: '' @ ledger_day1) 3000],
      lastData = ledger_day1, status_dot = Some ''#4caf50'',
      status_text = Some (''Options Levels: Updated '' @ check_mark),
      status_details = Some (''Last update: '' @ decimal 920)\<rparr>"
  by (simp add: script_defs example_defs)

lemma run_no_textarea:
  "fetchAndUpdate (example_host (Loaded 200 ledger_csv) (chart ''Options Levels Tracker'' [dialog_without_textarea]))
       init_client
   = \<lparr>isUpdating = False, clock = 620,
      effects = [Request (fetchData_url 0), Click 7, Log ''Options Levels: Textarea not found in dialog''],
      lastData = ledger_day1, status_dot = Some ''#f44336'',
      status_text = Some ''Update failed - manual paste needed'',
      status_details = Some (''Last update: '' @ decimal 620)\<rparr>"
  by (simp add: script_defs example_defs)

lemma run_no_dialog:
  "fetchAndUpdate (example_host (Loaded 200 ledger_csv) (chart ''Options Levels Tracker'' [])) init_client
   = \<lparr>isUpdating = False, clock = 620,
      effects = [Request (fetchData_url 0), Click 7, Log ''Options Levels: Dialog not found''],
      lastData = ledger_day1, status_dot = Some ''#f44336'',
      status_text = Some ''Update failed - manual paste needed'',
      status_details = Some (''Last update: '' @ decimal 620)\<rparr>"
  by (simp add: script_defs example_defs)

lemma run_throws:
  "fetchAndUpdate (example_host (Loaded 200 ledger_csv) (chart ''Options Levels Tracker'' [dialog_odd_textarea]))
       init_client
   = \<lparr>isUpdating = False, clock = 620,
      effects = [Request (fetchData_url 0), Click 7,
        LogError ''Options Levels Error:'' (TypeError ''Cannot read properties of undefined'')],
      lastData = ledger_day1, status_dot = Some ''#f44336'',
      status_text = Some ''Error: Cannot read properties of undefined'',
      status_details = Some (''Last update: '' @ decimal 620)\<rparr>"
  by (simp add: script_defs example_defs)

lemma run_not_found:
  "fetchAndUpdate (example_host (Loaded 200 ledger_csv) (chart ''Volume'' [])) init_client
   = \<lparr>isUpdating = False, clock = 120,
      effects = [Request (fetchData_url 0), Log add_indicator_hint],
      lastData = ledger_day1, status_dot = Some ''#f44336'',
      status_text = Some ''Indicator not found on chart'',
      status_details = Some (''Last update: '' @ decimal 120)\<rparr>"
  by (simp add: script_defs example_defs)

lemma run_http_error:
  "fetchAndUpdate (example_host (Loaded 404 []) (chart ''Volume'' [])) init_client
   = \<lparr>isUpdating = False, clock = 120,
      effects = [Request (fetchData_url 0),
        LogError ''Options Levels Error:'' (Error (''Failed to fetch: '' @ decimal 404))],
      lastData = [], status_dot = Some ''#f44336'',
      status_text = Some (''Error: Failed to fetch: '' @ decimal 404),
      status_details = Some (''Last update: '' @ decimal 120)\<rparr>"
  by (simp add: script_defs example_defs)

lemma run_no_change:
  "fetchAndUpdate (example_host (Loaded 200 ledger_csv) (chart ''Volume'' []))
     (fetchAndUpdate (example_host (Loaded 200 ledger_csv) (chart ''Volume'' [])) init_client)
   = \<lparr>isUpdating = False, clock = 240,
      effects = [Request (fetchData_url 0), Log add_indicator_hint, Request (fetchData_url 120)],
      lastData = ledger_day1, status_dot = Some ''#4caf50'',
      status_text = Some ''Options Levels: No changes'',
      status_details = Some (''Last update: '' @ decimal 240)\<rparr>"
  unfolding run_not_found by (simp add: script_defs example_defs)

lemma run2_updated:
  "fetchAndUpdate2 (example_host2 (Loaded 200 ledger_csv) [legend2 ''Options Levels Tracker'' (Some levels_dialog)])
       init_client2
   = \<lparr>isUpdating = False, clock = 920,
      effects = [Request (fetchData2_url 0), Click 7,
        SetNumber 40 (Num 98500), Dispatch 40 ''input'', Dispatch 40 ''change'',
        SetNumber 41 (Num 95200), Dispatch 41 ''input'', Dispatch 41 ''change'', Click 50,
        Notify ''Options Levels Updated''
          (''R: $'' @ decimal 98500 @ '' | S: $'' @ decimal 95200) 3000,
        LogRecord ''Options Levels updated:''
          \<lparr>rec_date = ''18/12/2024'', rec_resistance = Num 98500, rec_support = Num 95200\<rparr>],
      resistance = Num 98500, support = Num 95200, lastUpdate = Some 120,
      ol_resistance = Some (''$'' @ decimal 98500), ol_support = Some (''$'' @ decimal 95200),
      ol_status = Some (''Updated: '' @ decimal 120, ''ol-status success'')\<rparr>"
  by (simp add: script2_defs example_defs upt_rec)

lemma run2_not_found:
  "fetchAndUpdate2 (example_host2 (Loaded 200 ledger_csv) [legend2 ''Volume'' None]) init_client2
   = \<lparr>isUpdating = False, clock = 120,
      effects = [Request (fetchData2_url 0),
        LogRecord ''Options Levels updated:''
          \<lparr>rec_date = ''18/12/2024'', rec_resistance = Num 98500, rec_support = Num 95200\<rparr>],
      resistance = Num 98500, support = Num 95200, lastUpdate = Some 120,
      ol_resistance = Some (''$'' @ decimal 98500), ol_support = Some (''$'' @ decimal 95200),
      ol_status = Some (''Updated: '' @ decimal 120, ''ol-status success'')\<rparr>"
  by (simp add: script2_defs example_defs upt_rec)

lemma run2_no_change:
  "fetchAndUpdate2 (example_host2 (Loaded 200 ledger_csv) [legend2 ''Volume'' None])
     (fetchAndUpdate2 (example_host2 (Loaded 200 ledger_csv) [legend2 ''Volume'' None]) init_client2)
   = \<lparr>isUpdating = False, clock = 240,
      effects = [Request (fetchData2_url 0),
        LogRecord ''Options Levels updated:''
          \<lparr>rec_date = ''18/12/2024'', rec_resistance = Num 98500, rec_support = Num 95200\<rparr>,
        Request (fetchData2_url 120)],
      resistance = Num 98500, support = Num 95200, lastUpdate = Some 120,
      ol_resistance = Some (''$'' @ decimal 98500), ol_support = Some (''$'' @ decimal 95200),
      ol_status = Some (''No changes'', ''ol-status '')\<rparr>"
  unfolding run2_not_found by (simp add: script2_defs example_defs upt_rec)

section \<open>The guard is released on every way out (C2)\<close>

text \<open>
  Claim C2.  An invocation of \<^verbatim>\<open>fetchAndUpdate\<close> that begins with \<^verbatim>\<open>isUpdating\<close> false ends
  with \<^verbatim>\<open>isUpdating\<close> false, in both versions and whatever the host does: the request
  may load, load with another status or fail, the record may be unchanged, the indicator,
  the dialog, the text area or the confirm button may be missing, the driver may throw.
\<close>

theorem C2_guard_released:
  assumes "\<not> isUpdating w" and "\<not> isUpdating w2"
  shows "\<not> isUpdating (fetchAndUpdate h w) \<and> \<not> isUpdating (fetchAndUpdate2 h2 w2)"
  using assms by (simp add: fetchAndUpdate_guard fetchAndUpdate2_guard)

theorem C2_guard_released_witness:
  "\<not> isUpdating init_client \<and> \<not> isUpdating init_client2
   \<and> \<not> isUpdating (fetchAndUpdate
          (example_host (Loaded 200 ledger_csv) (chart ''Options Levels Tracker'' [dialog_with_ok]))
          init_client)
   \<and> \<not> isUpdating (fetchAndUpdate
          (example_host (Loaded 200 ledger_csv) (chart ''Options Levels Tracker'' [dialog_odd_textarea]))
          init_client)
   \<and> \<not> isUpdating (fetchAndUpdate (example_host (Loaded 404 []) (chart ''Volume'' [])) init_client)
   \<and> \<not> isUpdating (fetchAndUpdate2
          (example_host2 (Loaded 200 ledger_csv) [legend2 ''Volume'' None]) init_client2)"
  using
    C2_guard_released [of init_client init_client2
      "example_host (Loaded 200 ledger_csv) (chart ''Options Levels Tracker'' [dialog_with_ok])"
      "example_host2 (Loaded 200 ledger_csv) [legend2 ''Volume'' None]"]
    C2_guard_released [of init_client init_client2
      "example_host (Loaded 200 ledger_csv) (chart ''Options Levels Tracker'' [dialog_odd_textarea])"]
    C2_guard_released [of init_client init_client2
      "example_host (Loaded 404 []) (chart ''Volume'' [])"]
  by (simp add: init_client_def init_client2_def)

section \<open>Change detection and the stored state\<close>

lemma catch_error_lastData [simp]: "lastData (catch_error h e w) = lastData w"
  by (simp add: catch_error_def)

lemma after_update_lastData [simp]: "lastData (after_update h d b w) = lastData w"
  by (simp add: after_update_def Let_def)

lemma fetchAndUpdate_begin_fields [simp]:
  "isUpdating (fetchAndUpdate_begin h w) = True"
  "clock (fetchAndUpdate_begin h w) = clock w"
  "lastData (fetchAndUpdate_begin h w) = lastData w"
  "effects (fetchAndUpdate_begin h w) = effects w @ [Request (fetchData_url (clock w))]"
  by (simp_all add: fetchAndUpdate_begin_def Let_def)

lemma fetchAndUpdate2_begin_fields [simp]:
  "isUpdating (fetchAndUpdate2_begin w) = True"
  "clock (fetchAndUpdate2_begin w) = clock w"
  "resistance (fetchAndUpdate2_begin w) = resistance w"
  "support (fetchAndUpdate2_begin w) = support w"
  "effects (fetchAndUpdate2_begin w) = effects w @ [Request (fetchData2_url (clock w))]"
  by (simp_all add: fetchAndUpdate2_begin_def Let_def)

text \<open>Version 1.0 with an unchanged body: the whole cycle, written out.\<close>

lemma fetchAndUpdate_unchanged:
  assumes "\<not> isUpdating w" and "fetchData (response h) = Inr (lastData w)"
  shows "fetchAndUpdate h w =
           (updateStatus h ''Options Levels: No changes'' False
              (sleep (latency h) (fetchAndUpdate_begin h w)))\<lparr>isUpdating := False\<rparr>"
  using assms by (simp add: fetchAndUpdate_def fetchAndUpdate_fetched_def)

text \<open>Version 1.0 with a changed body: \<^verbatim>\<open>lastData\<close> is written first, then the driver runs.\<close>

lemma fetchAndUpdate_changed:
  assumes "\<not> isUpdating w" and "fetchData (response h) = Inr data" and "data \<noteq> lastData w"
  shows "fetchAndUpdate h w =
           (case findIndicatorSettings (page h)
                   ((sleep (latency h) (fetchAndUpdate_begin h w))\<lparr>lastData := data\<rparr>) of
              (True, w1) \<Rightarrow>
                (case updateIndicatorInput (page h) data w1 of
                   (Inl e, w2) \<Rightarrow> catch_error h e w2
                 | (Inr updated, w2) \<Rightarrow> after_update h data updated w2)
            | (False, w1) \<Rightarrow>
                (emit (Log add_indicator_hint)
                   (updateStatus h ''Indicator not found on chart'' True w1))\<lparr>isUpdating := False\<rparr>)"
  using assms
  by (simp add: fetchAndUpdate_def fetchAndUpdate_fetched_def split: prod.splits bool.splits)

lemma fetchAndUpdate_lastData:
  assumes "\<not> isUpdating w" and "fetchData (response h) = Inr data"
  shows "lastData (fetchAndUpdate h w) = data"
proof (cases "data = lastData w")
  case True
  then show ?thesis using assms by (simp add: fetchAndUpdate_unchanged)
next
  case False
  obtain f w1 where f: "findIndicatorSettings (page h)
      ((sleep (latency h) (fetchAndUpdate_begin h w))\<lparr>lastData := data\<rparr>) = (f, w1)"
    by (cases "findIndicatorSettings (page h)
      ((sleep (latency h) (fetchAndUpdate_begin h w))\<lparr>lastData := data\<rparr>)")
  have w1: "lastData w1 = data"
    using findIndicatorSettings_fields(3) [of "page h"
      "(sleep (latency h) (fetchAndUpdate_begin h w))\<lparr>lastData := data\<rparr>"] by (simp add: f)
  obtain res w2 where u: "updateIndicatorInput (page h) data w1 = (res, w2)"
    by (cases "updateIndicatorInput (page h) data w1")
  have w2: "lastData w2 = data"
    using updateIndicatorInput_fields(2) [of "page h" data w1] by (simp add: u w1)
  show ?thesis
    using assms False by (cases f; cases res) (simp_all add: fetchAndUpdate_changed f u w1 w2)
qed

lemma fetchAndUpdate2_unchanged:
  assumes "\<not> isUpdating w" and "fetchData2 (parseFloat h) (response h) = Inr data"
    and "\<not> record_changed data w"
  shows "fetchAndUpdate2 h w =
           (setStatus ''No changes'' False (sleep (latency h) (fetchAndUpdate2_begin w)))\<lparr>isUpdating := False\<rparr>"
  using assms by (simp add: fetchAndUpdate2_def Let_def record_changed_def)

lemma fetchAndUpdate2_changed:
  assumes "\<not> isUpdating w" and "fetchData2 (parseFloat h) (response h) = Inr data"
    and "record_changed data w"
  shows "fetchAndUpdate2 h w =
           (case updateIndicatorSettings (rec_resistance data) (rec_support data) (legendItems h)
                   (store_record h data (sleep (latency h) (fetchAndUpdate2_begin w))) of
              (updated, w2) \<Rightarrow> after_update2 h data updated w2)"
  using assms by (simp add: fetchAndUpdate2_def Let_def record_changed_def)

lemma after_update2_levels [simp]:
  "resistance (after_update2 h d b w) = resistance w" "support (after_update2 h d b w) = support w"
  by (simp_all add: after_update2_def)

lemma store_record_levels [simp]:
  "resistance (store_record h d w) = rec_resistance d" "support (store_record h d w) = rec_support d"
  by (simp_all add: store_record_def)

lemma fetchAndUpdate2_levels:
  assumes "\<not> isUpdating w" and "fetchData2 (parseFloat h) (response h) = Inr data"
  shows "resistance (fetchAndUpdate2 h w) = rec_resistance data
       \<and> support (fetchAndUpdate2 h w) = rec_support data"
proof (cases "record_changed data w")
  case True
  then show ?thesis using assms by (simp add: fetchAndUpdate2_changed split: prod.splits)
      (metis snd_conv updateIndicatorSettings_fields(2,3) store_record_levels)
next
  case False
  then show ?thesis using assms
    by (auto simp: fetchAndUpdate2_unchanged record_changed_def strict_neq_def)
qed

lemma same_levels_unchanged:
  assumes "resistance w = rec_resistance data" and "support w = rec_support data"
    and "rec_resistance data \<noteq> NaN" and "rec_support data \<noteq> NaN"
  shows "\<not> record_changed data w"
  using assms by (simp add: record_changed_def strict_neq_def)

section \<open>A failed propagation is not retried (C1)\<close>

text \<open>
  Claim C1 says that a cycle whose propagation to the chart fails leaves the last-applied
  state (\<^verbatim>\<open>lastData\<close>; \<^verbatim>\<open>state.resistance\<close> and \<^verbatim>\<open>state.support\<close>) as it was, so that the
  same record is retried.  Both scripts store the fetched data before they look for the
  indicator.  Here the indicator is not on the chart: version 1.0 reports so, yet
  \<^verbatim>\<open>lastData\<close> has changed, and the next cycle on the same ledger reports no change;
  version 2.0 has the new levels stored and answers the next cycle with no change too.
\<close>

theorem C1_counterexample:
  "status_text (fetchAndUpdate (example_host (Loaded 200 ledger_csv) (chart ''Volume'' [])) init_client)
     = Some ''Indicator not found on chart''
   \<and> lastData (fetchAndUpdate (example_host (Loaded 200 ledger_csv) (chart ''Volume'' [])) init_client)
       \<noteq> lastData init_client
   \<and> status_text (fetchAndUpdate (example_host (Loaded 200 ledger_csv) (chart ''Volume'' []))
        (fetchAndUpdate (example_host (Loaded 200 ledger_csv) (chart ''Volume'' [])) init_client))
     = Some ''Options Levels: No changes''
   \<and> fst (updateIndicatorSettings (Num 98500) (Num 95200) [legend2 ''Volume'' None] init_client2) = False
   \<and> resistance (fetchAndUpdate2 (example_host2 (Loaded 200 ledger_csv) [legend2 ''Volume'' None]) init_client2)
       \<noteq> resistance init_client2
   \<and> ol_status (fetchAndUpdate2 (example_host2 (Loaded 200 ledger_csv) [legend2 ''Volume'' None])
        (fetchAndUpdate2 (example_host2 (Loaded 200 ledger_csv) [legend2 ''Volume'' None]) init_client2))
     = Some (''No changes'', ''ol-status '')"
  apply (simp only: run_no_change run2_no_change)
  apply (simp only: run_not_found run2_not_found)
  by (simp add: init_client_def init_client2_def ledger_day1_def legend2_def toLowerCase_def lower_char_def)

text \<open>
  Claim C1 as amended.  In a cycle whose fetch resolves, the stored state is the fetched
  data when the cycle ends, whether the propagation succeeded, failed or threw; a
  following cycle that fetches the same data (for version 2.0: the same levels, neither
  of them \<open>NaN\<close>) only sends its request and reports no change.
\<close>

theorem C1_state_set_before_propagation:
  assumes "\<not> isUpdating w" and "fetchData (response h) = Inr data"
    and "fetchData (response h') = Inr data"
    and "\<not> isUpdating w2" and "fetchData2 (parseFloat h2) (response h2) = Inr data2"
    and "fetchData2 (parseFloat h2') (response h2') = Inr data2"
    and "rec_resistance data2 \<noteq> NaN" and "rec_support data2 \<noteq> NaN"
  shows "lastData (fetchAndUpdate h w) = data
       \<and> effects (fetchAndUpdate h' (fetchAndUpdate h w))
           = effects (fetchAndUpdate h w) @ [Request (fetchData_url (clock (fetchAndUpdate h w)))]
       \<and> status_text (fetchAndUpdate h' (fetchAndUpdate h w))
           = map_option (\<lambda>_. ''Options Levels: No changes'') (status_text (fetchAndUpdate h w))
       \<and> resistance (fetchAndUpdate2 h2 w2) = rec_resistance data2
       \<and> support (fetchAndUpdate2 h2 w2) = rec_support data2
       \<and> effects (fetchAndUpdate2 h2' (fetchAndUpdate2 h2 w2))
           = effects (fetchAndUpdate2 h2 w2) @ [Request (fetchData2_url (clock (fetchAndUpdate2 h2 w2)))]
       \<and> ol_status (fetchAndUpdate2 h2' (fetchAndUpdate2 h2 w2))
           = map_option (\<lambda>_. (''No changes'', ''ol-status '')) (ol_status (fetchAndUpdate2 h2 w2))"
proof -
  let ?w' = "fetchAndUpdate h w" and ?w2' = "fetchAndUpdate2 h2 w2"
  have a: "lastData ?w' = data"
    using assms(1,2) by (rule fetchAndUpdate_lastData)
  have g: "\<not> isUpdating ?w'"
    using assms(1) by (rule fetchAndUpdate_guard)
  have b: "fetchAndUpdate h' ?w' =
      (updateStatus h' ''Options Levels: No changes'' False
         (sleep (latency h') (fetchAndUpdate_begin h' ?w')))\<lparr>isUpdating := False\<rparr>"
    using g assms(3) by (simp add: fetchAndUpdate_unchanged a)
  have c: "resistance ?w2' = rec_resistance data2 \<and> support ?w2' = rec_support data2"
    using assms(4,5) by (rule fetchAndUpdate2_levels)
  have g2: "\<not> isUpdating ?w2'"
    using assms(4) by (rule fetchAndUpdate2_guard)
  have "\<not> record_changed data2 ?w2'"
    using c assms(7,8) by (simp add: same_levels_unchanged)
  then have d: "fetchAndUpdate2 h2' ?w2' =
      (setStatus ''No changes'' False (sleep (latency h2') (fetchAndUpdate2_begin ?w2')))\<lparr>isUpdating := False\<rparr>"
    using g2 assms(6) by (simp add: fetchAndUpdate2_unchanged)
  show ?thesis
    unfolding b d using a c
    by (simp add: updateStatus_def setStatus_def fetchAndUpdate_begin_def fetchAndUpdate2_begin_def Let_def
        option.map_comp comp_def)
qed

theorem C1_state_set_before_propagation_witness:
  "\<not> isUpdating init_client \<and> \<not> isUpdating init_client2
   \<and> status_text (fetchAndUpdate (example_host (Loaded 200 ledger_csv) (chart ''Options Levels Tracker'' [])) init_client)
       = Some ''Update failed - manual paste needed''
   \<and> lastData (fetchAndUpdate (example_host (Loaded 200 ledger_csv) (chart ''Options Levels Tracker'' [])) init_client)
       = ledger_day1
   \<and> status_text (fetchAndUpdate (example_host (Loaded 200 ledger_csv) (chart ''Options Levels Tracker'' []))
        (fetchAndUpdate (example_host (Loaded 200 ledger_csv) (chart ''Options Levels Tracker'' [])) init_client))
       = Some ''Options Levels: No changes''
   \<and> resistance (fetchAndUpdate2 (example_host2 (Loaded 200 ledger_csv) [legend2 ''Volume'' None]) init_client2)
       = Num 98500
   \<and> ol_status (fetchAndUpdate2 (example_host2 (Loaded 200 ledger_csv) [legend2 ''Volume'' None])
        (fetchAndUpdate2 (example_host2 (Loaded 200 ledger_csv) [legend2 ''Volume'' None]) init_client2))
       = Some (''No changes'', ''ol-status '')"
  using C1_state_set_before_propagation [of init_client
      "example_host (Loaded 200 ledger_csv) (chart ''Options Levels Tracker'' [])" ledger_day1
      "example_host (Loaded 200 ledger_csv) (chart ''Options Levels Tracker'' [])"
      init_client2 "example_host2 (Loaded 200 ledger_csv) [legend2 ''Volume'' None]"
      "\<lparr>rec_date = ''18/12/2024'', rec_resistance = Num 98500, rec_support = Num 95200\<rparr>"
      "example_host2 (Loaded 200 ledger_csv) [legend2 ''Volume'' None]"]
    fetchData_ledger_csv fetchData2_ledger_csv run_no_dialog run2_not_found
  by (simp add: init_client_def init_client2_def example_host_def example_host2_def)

section \<open>Effects are only ever added\<close>

lemma findIndicatorSettings_effects:
  "\<exists>es. effects (snd (findIndicatorSettings p w)) = effects w @ es"
  by (simp add: findIndicatorSettings_def split: option.splits)

lemma findIndicatorSettings_not_found:
  "findIndicatorSettings p w = (False, w1) \<Longrightarrow> w1 = w"
  by (auto simp: findIndicatorSettings_def split: option.splits)

lemma findIndicatorSettings_found:
  "findIndicatorSettings p w = (True, w1) \<Longrightarrow> \<exists>b. w1 = emit (Click b) w"
  by (auto simp: findIndicatorSettings_def split: option.splits)

lemma updateIndicatorInput_write_effects:
  "\<exists>es. effects (snd (updateIndicatorInput_write p d w)) = effects w @ es"
  by (simp add: updateIndicatorInput_write_def Let_def split: option.splits sum.splits)

lemma updateIndicatorInput_apply_effects:
  "\<exists>es. effects (snd (updateIndicatorInput_apply dlg w)) = effects w @ es"
  by (simp add: updateIndicatorInput_apply_def split: option.splits)

lemma updateIndicatorInput_effects:
  "\<exists>es. effects (snd (updateIndicatorInput p d w)) = effects w @ es"
proof -
  obtain st w1 where a: "updateIndicatorInput_write p d (sleep 500 w) = (st, w1)"
    by (cases "updateIndicatorInput_write p d (sleep 500 w)")
  obtain es where es: "effects w1 = effects w @ es"
    using updateIndicatorInput_write_effects [of p d "sleep 500 w"] by (auto simp: a)
  show ?thesis
  proof (cases st)
    case (Suspends dlg)
    obtain b w2 where c: "updateIndicatorInput_apply dlg (sleep 300 w1) = (b, w2)"
      by (cases "updateIndicatorInput_apply dlg (sleep 300 w1)")
    obtain es' where "effects w2 = effects w1 @ es'"
      using updateIndicatorInput_apply_effects [of dlg "sleep 300 w1"] by (auto simp: c)
    then show ?thesis by (simp add: updateIndicatorInput_def a Suspends c es)
  qed (simp_all add: updateIndicatorInput_def a es)
qed

lemma catch_error_effects [simp]:
  "effects (catch_error h e w) = effects w @ [LogError ''Options Levels Error:'' e]"
  by (simp add: catch_error_def)

lemma after_update_effects: "\<exists>es. effects (after_update h d b w) = effects w @ es"
  by (simp add: after_update_def Let_def CONFIG_def)

lemma write_inputs_effects: "\<exists>es. effects (write_inputs r s ins w) = effects w @ es"
  by (induction r s ins w rule: write_inputs.induct) (auto simp: Let_def)

lemma updateIndicatorSettings_effects:
  "\<exists>es. effects (snd (updateIndicatorSettings r s items w)) = effects w @ es"
proof (induction r s items w rule: updateIndicatorSettings.induct)
  case (1 r s w)
  show ?case by simp
next
  case (2 r s item rest w)
  note ih = "2.IH"
  show ?case
  proof (cases "legend_title item")
    case None
    then show ?thesis using ih(1) by simp
  next
    case (Some t)
    show ?thesis
    proof (cases "js_includes (toLowerCase t) ''options''")
      case False
      then show ?thesis using ih(5) Some by simp
    next
      case True
      show ?thesis
      proof (cases "legend_settings item")
        case None
        then show ?thesis using ih(2) Some True by simp
      next
        case b: (Some settingsBtn)
        show ?thesis
        proof (cases "opened_dialog item")
          case None
          then show ?thesis using ih(3) [OF Some True b None] Some True b by auto
        next
          case d: (Some dlg)
          obtain es where es: "effects (write_inputs r s (dlg2_inputs dlg) (sleep 600 (emit (Click settingsBtn) w)))
              = effects w @ [Click settingsBtn] @ es"
            using write_inputs_effects [of r s "dlg2_inputs dlg" "sleep 600 (emit (Click settingsBtn) w)"]
            by auto
          show ?thesis
          proof (cases "dlg2_submit dlg")
            case None
            then show ?thesis using ih(4) [OF Some True b d None] Some True b d es by auto
          next
            case (Some okBtn)
            then show ?thesis using \<open>legend_title item = Some t\<close> True b d es by simp
          qed
        qed
      qed
    qed
  qed
qed

lemma after_update2_effects:
  "\<exists>es. effects (after_update2 h d b w) = effects w @ es @ [LogRecord ''Options Levels updated:'' d]"
  by (simp add: after_update2_def)

lemma store_record_effects [simp]: "effects (store_record h d w) = effects w"
  by (simp add: store_record_def)

text \<open>A cycle of version 1.0 that found the body changed adds at least one effect after
  its request; so does a cycle of version 2.0 that found the levels changed.\<close>

lemma fetchAndUpdate_changed_effects:
  assumes "\<not> isUpdating w" and "fetchData (response h) = Inr data" and "data \<noteq> lastData w"
  shows "\<exists>e es. effects (fetchAndUpdate h w) = effects w @ Request (fetchData_url (clock w)) # e # es"
proof -
  let ?w0 = "(sleep (latency h) (fetchAndUpdate_begin h w))\<lparr>lastData := data\<rparr>"
  have e0: "effects ?w0 = effects w @ [Request (fetchData_url (clock w))]"
    by simp
  obtain f w1 where f: "findIndicatorSettings (page h) ?w0 = (f, w1)"
    by (cases "findIndicatorSettings (page h) ?w0")
  show ?thesis
  proof (cases f)
    case False
    then have "w1 = ?w0" using f findIndicatorSettings_not_found [of "page h" ?w0 w1] by simp
    then show ?thesis
      using assms f False by (simp add: fetchAndUpdate_changed)
  next
    case True
    then obtain b where w1: "w1 = emit (Click b) ?w0"
      using f findIndicatorSettings_found [of "page h" ?w0 w1] by auto
    obtain res w2 where u: "updateIndicatorInput (page h) data w1 = (res, w2)"
      by (cases "updateIndicatorInput (page h) data w1")
    obtain es where es: "effects w2 = effects w1 @ es"
      using updateIndicatorInput_effects [of "page h" data w1] by (auto simp: u)
    have w2: "effects w2 = effects w @ Request (fetchData_url (clock w)) # Click b # es"
      using es w1 by simp
    show ?thesis
    proof (cases res)
      case (Inl e)
      then show ?thesis using assms f True u w2 by (simp add: fetchAndUpdate_changed)
    next
      case (Inr updated)
      obtain es' where "effects (after_update h data updated w2) = effects w2 @ es'"
        using after_update_effects by blast
      then show ?thesis using assms f True u w2 Inr by (simp add: fetchAndUpdate_changed)
    qed
  qed
qed

lemma fetchAndUpdate2_changed_effects:
  assumes "\<not> isUpdating w" and "fetchData2 (parseFloat h) (response h) = Inr data"
    and "record_changed data w"
  shows "\<exists>es. effects (fetchAndUpdate2 h w)
           = effects w @ Request (fetchData2_url (clock w)) # es @ [LogRecord ''Options Levels updated:'' data]"
proof -
  let ?w0 = "store_record h data (sleep (latency h) (fetchAndUpdate2_begin w))"
  obtain updated w2 where u: "updateIndicatorSettings (rec_resistance data) (rec_support data)
      (legendItems h) ?w0 = (updated, w2)"
    by (cases "updateIndicatorSettings (rec_resistance data) (rec_support data) (legendItems h) ?w0")
  obtain es where es: "effects w2 = effects ?w0 @ es"
    using updateIndicatorSettings_effects
      [of "rec_resistance data" "rec_support data" "legendItems h" ?w0] by (auto simp: u)
  obtain es' where "effects (after_update2 h data updated w2)
      = effects w2 @ es' @ [LogRecord ''Options Levels updated:'' data]"
    using after_update2_effects by blast
  then show ?thesis
    using assms u es by (simp add: fetchAndUpdate2_changed)
qed

section \<open>What change detection compares (C4)\<close>

text \<open>
  Two more runs.  Version 1.0, after a cycle that applied the ledger, meets a ledger whose
  last record is repeated: the driver runs again.  Version 2.0, after a cycle that applied
  the ledger, meets a ledger whose last record has another date and other gamma strikes but
  the same two levels: it reports no change.
\<close>

lemma run_repeat:
  "fetchAndUpdate (example_host (Loaded 200 ledger_csv_repeat) (chart ''Options Levels Tracker'' [dialog_with_ok]))
     (fetchAndUpdate (example_host (Loaded 200 ledger_csv) (chart ''Options Levels Tracker'' [dialog_with_ok]))
        init_client)
   = \<lparr>isUpdating = False, clock = 1840,
      effects = [Request (fetchData_url 0), Click 7, SetValue 20 ledger_day1,
        Dispatch 20 ''input'', Dispatch 20 ''change'',
        Log ''Options Levels: Data updated in textarea'', Click 31,
        Log ''Options Levels: Settings applied'',
        Notify ''Options Levels Updated'' (''New data loaded: '' @ ledger_day1) 3000,
        Request (fetchData_url 920), Click 7, SetValue 20 (ledger_day1 @ [NL] @ ledger_day1),
        Dispatch 20 ''input'', Dispatch 20 ''change'',
        Log ''Options Levels: Data updated in textarea'', Click 31,
        Log ''Options Levels: Settings applied'',
        Notify ''Options Levels Updated'' (''New data loaded: '' @ ledger_day1) 3000],
      lastData = ledger_day1 @ [NL] @ ledger_day1, status_dot = Some ''#4caf50'',
      status_text = Some (''Options Levels: Updated '' @ check_mark),
      status_details = Some (''Last update: '' @ decimal 1840)\<rparr>"
  unfolding run_updated by (simp add: script_defs example_defs)

lemma run2_same_levels:
  "fetchAndUpdate2 (example_host2 (Loaded 200 ledger_csv_same_levels)
        [legend2 ''Options Levels Tracker'' (Some levels_dialog)])
     (fetchAndUpdate2 (example_host2 (Loaded 200 ledger_csv)
        [legend2 ''Options Levels Tracker'' (Some levels_dialog)]) init_client2)
   = \<lparr>isUpdating = False, clock = 1040,
      effects = [Request (fetchData2_url 0), Click 7,
        SetNumber 40 (Num 98500), Dispatch 40 ''input'', Dispatch 40 ''change'',
        SetNumber 41 (Num 95200), Dispatch 41 ''input'', Dispatch 41 ''change'', Click 50,
        Notify ''Options Levels Updated''
          (''R: $'' @ decimal 98500 @ '' | S: $'' @ decimal 95200) 3000,
        LogRecord ''Options Levels updated:''
          \<lparr>rec_date = ''18/12/2024'', rec_resistance = Num 98500, rec_support = Num 95200\<rparr>,
        Request (fetchData2_url 920)],
      resistance = Num 98500, support = Num 95200, lastUpdate = Some 120,
      ol_resistance = Some (''$'' @ decimal 98500), ol_support = Some (''$'' @ decimal 95200),
      ol_status = Some (''No changes'', ''ol-status '')\<rparr>"
  unfolding run2_updated by (simp add: script2_defs example_defs upt_rec)

lemma fetchData2_ledger_csv_same_levels:
  "fetchData2 parse_digits (Loaded 200 ledger_csv_same_levels)
     = Inr \<lparr>rec_date = ''19/12/2024'', rec_resistance = Num 98500, rec_support = Num 95200\<rparr>"
  by (simp add: example_defs js_trim_def is_space_def upt_rec)

text \<open>
  Claim C4 says that the driver is invoked if and only if some field of the ledger's latest
  record differs from the last-applied record.  In version 1.0 the latest record of the
  second ledger is the line the first cycle applied, and the driver is invoked all the
  same (it clicks the settings button and writes again).  In version 2.0 the latest record
  of the second ledger differs from the applied one in its date, and the cycle makes its
  request only and reports no change.
\<close>

theorem C4_counterexample:
  "last (js_split NL (js_trim ledger_csv_repeat)) = last (js_split NL (js_trim ledger_csv))
   \<and> drop 9 (effects
        (fetchAndUpdate (example_host (Loaded 200 ledger_csv_repeat) (chart ''Options Levels Tracker'' [dialog_with_ok]))
           (fetchAndUpdate (example_host (Loaded 200 ledger_csv) (chart ''Options Levels Tracker'' [dialog_with_ok]))
              init_client)))
       = [Request (fetchData_url 920), Click 7, SetValue 20 (ledger_day1 @ [NL] @ ledger_day1),
          Dispatch 20 ''input'', Dispatch 20 ''change'',
          Log ''Options Levels: Data updated in textarea'', Click 31,
          Log ''Options Levels: Settings applied'',
          Notify ''Options Levels Updated'' (''New data loaded: '' @ ledger_day1) 3000]
   \<and> fetchData2 parse_digits (Loaded 200 ledger_csv)
       = Inr \<lparr>rec_date = ''18/12/2024'', rec_resistance = Num 98500, rec_support = Num 95200\<rparr>
   \<and> fetchData2 parse_digits (Loaded 200 ledger_csv_same_levels)
       = Inr \<lparr>rec_date = ''19/12/2024'', rec_resistance = Num 98500, rec_support = Num 95200\<rparr>
   \<and> drop 11 (effects
        (fetchAndUpdate2 (example_host2 (Loaded 200 ledger_csv_same_levels)
            [legend2 ''Options Levels Tracker'' (Some levels_dialog)])
           (fetchAndUpdate2 (example_host2 (Loaded 200 ledger_csv)
              [legend2 ''Options Levels Tracker'' (Some levels_dialog)]) init_client2)))
       = [Request (fetchData2_url 920)]
   \<and> ol_status
        (fetchAndUpdate2 (example_host2 (Loaded 200 ledger_csv_same_levels)
            [legend2 ''Options Levels Tracker'' (Some levels_dialog)])
           (fetchAndUpdate2 (example_host2 (Loaded 200 ledger_csv)
              [legend2 ''Options Levels Tracker'' (Some levels_dialog)]) init_client2))
       = Some (''No changes'', ''ol-status '')"
  apply (simp only: run_repeat run2_same_levels fetchData2_ledger_csv fetchData2_ledger_csv_same_levels)
  by (simp add: example_defs js_trim_def is_space_def)

text \<open>
  Claim C4 as amended.  Version 1.0 compares the whole fetched body (every line after the
  header) with \<^verbatim>\<open>lastData\<close> as strings; version 2.0 compares the resistance and the support
  of the last line with the stored ones by \<^verbatim>\<open>!==\<close>, so that a \<open>NaN\<close> always counts as a
  change and the date and the gamma strikes never do.  When the compared values are equal
  the cycle is its request, the report of no change and the release of the guard; when
  they differ the driver is what runs next, and the cycle leaves at least one more effect
  (version 2.0: it ends with the console record of the update).
\<close>

theorem C4_change_detection:
  assumes "\<not> isUpdating w" and "fetchData (response h) = Inr data"
    and "\<not> isUpdating w2" and "fetchData2 (parseFloat h2) (response h2) = Inr data2"
  shows
    "(data = lastData w \<longrightarrow>
        fetchAndUpdate h w =
          (updateStatus h ''Options Levels: No changes'' False
             (sleep (latency h) (fetchAndUpdate_begin h w)))\<lparr>isUpdating := False\<rparr>)
   \<and> (data \<noteq> lastData w \<longrightarrow>
        fetchAndUpdate h w =
          (case findIndicatorSettings (page h)
                  ((sleep (latency h) (fetchAndUpdate_begin h w))\<lparr>lastData := data\<rparr>) of
             (True, w1) \<Rightarrow>
               (case updateIndicatorInput (page h) data w1 of
                  (Inl e, w2) \<Rightarrow> catch_error h e w2
                | (Inr updated, w2) \<Rightarrow> after_update h data updated w2)
           | (False, w1) \<Rightarrow>
               (emit (Log add_indicator_hint)
                  (updateStatus h ''Indicator not found on chart'' True w1))\<lparr>isUpdating := False\<rparr>))
   \<and> (data \<noteq> lastData w) =
        (\<exists>e es. effects (fetchAndUpdate h w) = effects w @ Request (fetchData_url (clock w)) # e # es)
   \<and> record_changed data2 w2 =
        (rec_resistance data2 = NaN \<or> rec_support data2 = NaN
         \<or> rec_resistance data2 \<noteq> resistance w2 \<or> rec_support data2 \<noteq> support w2)
   \<and> (\<not> record_changed data2 w2 \<longrightarrow>
        fetchAndUpdate2 h2 w2 =
          (setStatus ''No changes'' False (sleep (latency h2) (fetchAndUpdate2_begin w2)))\<lparr>isUpdating := False\<rparr>)
   \<and> (record_changed data2 w2 \<longrightarrow>
        fetchAndUpdate2 h2 w2 =
          (case updateIndicatorSettings (rec_resistance data2) (rec_support data2) (legendItems h2)
                  (store_record h2 data2 (sleep (latency h2) (fetchAndUpdate2_begin w2))) of
             (updated, w3) \<Rightarrow> after_update2 h2 data2 updated w3))
   \<and> record_changed data2 w2 =
        (\<exists>es. effects (fetchAndUpdate2 h2 w2)
           = effects w2 @ Request (fetchData2_url (clock w2)) # es @ [LogRecord ''Options Levels updated:'' data2])"
proof -
  have a: "data = lastData w \<longrightarrow>
        fetchAndUpdate h w =
          (updateStatus h ''Options Levels: No changes'' False
             (sleep (latency h) (fetchAndUpdate_begin h w)))\<lparr>isUpdating := False\<rparr>"
    using assms(1,2) by (simp add: fetchAndUpdate_unchanged)
  have b: "data \<noteq> lastData w \<longrightarrow>
        fetchAndUpdate h w =
          (case findIndicatorSettings (page h)
                  ((sleep (latency h) (fetchAndUpdate_begin h w))\<lparr>lastData := data\<rparr>) of
             (True, w1) \<Rightarrow>
               (case updateIndicatorInput (page h) data w1 of
                  (Inl e, w2) \<Rightarrow> catch_error h e w2
                | (Inr updated, w2) \<Rightarrow> after_update h data updated w2)
           | (False, w1) \<Rightarrow>
               (emit (Log add_indicator_hint)
                  (updateStatus h ''Indicator not found on chart'' True w1))\<lparr>isUpdating := False\<rparr>)"
    using assms(1,2) fetchAndUpdate_changed [of w h data] by blast
  have c: "(data \<noteq> lastData w) =
        (\<exists>e es. effects (fetchAndUpdate h w) = effects w @ Request (fetchData_url (clock w)) # e # es)"
  proof (cases "data = lastData w")
    case True
    then show ?thesis using a by simp
  next
    case False
    then show ?thesis using fetchAndUpdate_changed_effects [OF assms(1,2) False] by simp
  qed
  have d: "record_changed data2 w2 =
        (rec_resistance data2 = NaN \<or> rec_support data2 = NaN
         \<or> rec_resistance data2 \<noteq> resistance w2 \<or> rec_support data2 \<noteq> support w2)"
    by (auto simp: record_changed_def strict_neq_def)
  have e: "\<not> record_changed data2 w2 \<longrightarrow>
        fetchAndUpdate2 h2 w2 =
          (setStatus ''No changes'' False (sleep (latency h2) (fetchAndUpdate2_begin w2)))\<lparr>isUpdating := False\<rparr>"
    using assms(3,4) by (simp add: fetchAndUpdate2_unchanged)
  have f: "record_changed data2 w2 \<longrightarrow>
        fetchAndUpdate2 h2 w2 =
          (case updateIndicatorSettings (rec_resistance data2) (rec_support data2) (legendItems h2)
                  (store_record h2 data2 (sleep (latency h2) (fetchAndUpdate2_begin w2))) of
             (updated, w3) \<Rightarrow> after_update2 h2 data2 updated w3)"
    using assms(3,4) fetchAndUpdate2_changed [of w2 h2 data2] by blast
  have g: "record_changed data2 w2 =
        (\<exists>es. effects (fetchAndUpdate2 h2 w2)
           = effects w2 @ Request (fetchData2_url (clock w2)) # es @ [LogRecord ''Options Levels updated:'' data2])"
  proof (cases "record_changed data2 w2")
    case True
    then show ?thesis using fetchAndUpdate2_changed_effects [OF assms(3,4) True] by simp
  next
    case False
    then show ?thesis using e by simp
  qed
  show ?thesis
    using a b c d e f g by (intro conjI)
qed

theorem C4_change_detection_witness:
  "\<not> isUpdating init_client \<and> \<not> isUpdating init_client2
   \<and> fetchData (response (example_host (Loaded 200 ledger_csv) (chart ''Volume'' []))) = Inr ledger_day1
   \<and> ledger_day1 \<noteq> lastData init_client
   \<and> (\<exists>e es. effects (fetchAndUpdate (example_host (Loaded 200 ledger_csv) (chart ''Volume'' [])) init_client)
         = effects init_client @ Request (fetchData_url (clock init_client)) # e # es)
   \<and> record_changed \<lparr>rec_date = ''18/12/2024'', rec_resistance = Num 98500, rec_support = Num 95200\<rparr>
        init_client2
   \<and> (\<exists>es. effects (fetchAndUpdate2 (example_host2 (Loaded 200 ledger_csv) [legend2 ''Volume'' None]) init_client2)
         = effects init_client2 @ Request (fetchData2_url (clock init_client2)) # es
            @ [LogRecord ''Options Levels updated:''
                 \<lparr>rec_date = ''18/12/2024'', rec_resistance = Num 98500, rec_support = Num 95200\<rparr>])"
proof -
  let ?h = "example_host (Loaded 200 ledger_csv) (chart ''Volume'' [])"
  let ?h2 = "example_host2 (Loaded 200 ledger_csv) [legend2 ''Volume'' None]"
  let ?d = "\<lparr>rec_date = ''18/12/2024'', rec_resistance = Num 98500, rec_support = Num 95200\<rparr>"
  have g1: "\<not> isUpdating init_client" and g2: "\<not> isUpdating init_client2"
    by (simp_all add: init_client_def init_client2_def)
  have f1: "fetchData (response ?h) = Inr ledger_day1"
    by (simp add: example_host_def fetchData_ledger_csv del: fetchData.simps)
  have f2: "fetchData2 (parseFloat ?h2) (response ?h2) = Inr ?d"
    by (simp add: example_host2_def fetchData2_ledger_csv del: fetchData2.simps)
  have ne: "ledger_day1 \<noteq> lastData init_client"
    by (simp add: init_client_def ledger_day1_def)
  have rc: "record_changed ?d init_client2"
    by (simp add: record_changed_def strict_neq_def init_client2_def)
  note t = C4_change_detection [OF g1 f1 g2 f2]
  have e1: "\<exists>e es. effects (fetchAndUpdate ?h init_client)
      = effects init_client @ Request (fetchData_url (clock init_client)) # e # es"
    using t ne by blast
  have e2: "\<exists>es. effects (fetchAndUpdate2 ?h2 init_client2)
      = effects init_client2 @ Request (fetchData2_url (clock init_client2)) # es
          @ [LogRecord ''Options Levels updated:'' ?d]"
    using t rc by blast
  show ?thesis
    using g1 g2 f1 ne e1 rc e2 by (intro conjI)
qed

section \<open>The request and the record read from the ledger (C7)\<close>

lemma digit_roundtrip: "d < 10 \<Longrightarrow> digit_of (digit_char d) = Some d"
proof -
  assume "d < 10"
  then have "d = 0 \<or> d = 1 \<or> d = 2 \<or> d = 3 \<or> d = 4 \<or> d = 5 \<or> d = 6 \<or> d = 7 \<or> d = 8 \<or> d = 9"
    by arith
  then show ?thesis
    by (elim disjE) (simp_all add: digit_of_def digit_char_def upt_rec)
qed

lemma decimal_value: "foldl (\<lambda>a c. 10 * a + the (digit_of c)) 0 (decimal n) = n"
proof (induction n rule: decimal.induct)
  case (1 n)
  show ?case
  proof (cases "n < 10")
    case True
    then show ?thesis by (subst decimal.simps) (simp add: digit_roundtrip)
  next
    case False
    then show ?thesis
      using "1.IH" by (subst decimal.simps) (simp add: digit_roundtrip)
  qed
qed

lemma decimal_inj: "decimal m = decimal n \<Longrightarrow> m = n"
  by (metis decimal_value)

lemma fetchAndUpdate_requests:
  assumes "\<not> isUpdating w"
  shows "\<exists>es. effects (fetchAndUpdate h w) = effects w @ Request (fetchData_url (clock w)) # es"
proof (cases "fetchData (response h)")
  case (Inl e)
  then show ?thesis
    using assms by (simp add: fetchAndUpdate_def fetchAndUpdate_fetched_def)
next
  case (Inr data)
  show ?thesis
  proof (cases "data = lastData w")
    case True
    then show ?thesis using assms Inr by (simp add: fetchAndUpdate_unchanged)
  next
    case False
    then show ?thesis using fetchAndUpdate_changed_effects [OF assms Inr False] by auto
  qed
qed

lemma fetchAndUpdate2_requests:
  assumes "\<not> isUpdating w"
  shows "\<exists>es. effects (fetchAndUpdate2 h w) = effects w @ Request (fetchData2_url (clock w)) # es"
proof (cases "fetchData2 (parseFloat h) (response h)")
  case (Inl e)
  then show ?thesis
    using assms by (simp add: fetchAndUpdate2_def Let_def catch_error2_def)
next
  case (Inr data)
  show ?thesis
  proof (cases "record_changed data w")
    case False
    then show ?thesis using assms Inr by (simp add: fetchAndUpdate2_unchanged)
  next
    case True
    then show ?thesis using fetchAndUpdate2_changed_effects [OF assms Inr True] by auto
  qed
qed

lemma fetchData2_last_line:
  assumes "fetchData2 pf (Loaded 200 txt) = Inr d"
  shows "d = (let parts = js_split (CHR '','') (last (js_split NL (js_trim txt)))
              in \<lparr>rec_date = parts ! 0, rec_resistance = pf (parts ! 1), rec_support = pf (parts ! 2)\<rparr>)"
proof -
  let ?lines = "js_split NL (js_trim txt)"
  have "length ?lines > 1"
    using assms by (auto simp: Let_def split: if_splits)
  then have "?lines ! (length ?lines - 1) = last ?lines"
    by (cases "?lines = []") (simp_all add: last_conv_nth)
  then show ?thesis
    using assms by (auto simp: Let_def split: if_splits)
qed

text \<open>
  Claim C7 says that the current record comes from the last line of the ledger only.
  Version 1.0 resolves with every line after the header: for the ledger of two days the
  data is both lines, not the last one, and both lines are what the driver writes into
  the text area.
\<close>

theorem C7_counterexample:
  "last (js_split NL (js_trim ledger_csv_next)) = ledger_day2
   \<and> fetchData (Loaded 200 ledger_csv_next) = Inr (ledger_day1 @ [NL] @ ledger_day2)
   \<and> fetchData (Loaded 200 ledger_csv_next) \<noteq> Inr ledger_day2
   \<and> effects (fetchAndUpdate
        (example_host (Loaded 200 ledger_csv_next) (chart ''Options Levels Tracker'' [dialog_with_ok]))
        init_client) ! 2
       = SetValue 20 (ledger_day1 @ [NL] @ ledger_day2)"
  by (simp add: script_defs example_defs)

text \<open>
  Claim C7 as amended.  Every cycle that passes the guard first requests the ledger URL
  followed by \<^verbatim>\<open>?t=\<close> and the clock in milliseconds, so two polls at different times
  request different URLs.  Version 1.0 takes as its data all lines of the trimmed body but
  the first, joined by newlines; version 2.0 takes the date and the two levels from the
  first three fields of the last line alone.
\<close>

theorem C7_poll_and_current_record:
  assumes "\<not> isUpdating w" and "\<not> isUpdating w2"
    and "fetchData2 pf (Loaded 200 txt2) = Inr d"
  shows "(\<exists>es. effects (fetchAndUpdate h w)
            = effects w @ Request (csvUrl CONFIG @ ''?t='' @ decimal (clock w)) # es)
       \<and> (\<exists>es. effects (fetchAndUpdate2 h2 w2)
            = effects w2 @ Request (dataUrl CONFIG2 @ ''?t='' @ decimal (clock w2)) # es)
       \<and> (fetchData_url m = fetchData_url n) = (m = n)
       \<and> (fetchData2_url m = fetchData2_url n) = (m = n)
       \<and> fetchData (Loaded 200 txt) = Inr (js_join [NL] (drop 1 (js_split NL (js_trim txt))))
       \<and> d = (let parts = js_split (CHR '','') (last (js_split NL (js_trim txt2)))
              in \<lparr>rec_date = parts ! 0, rec_resistance = pf (parts ! 1), rec_support = pf (parts ! 2)\<rparr>)"
proof -
  have a: "\<exists>es. effects (fetchAndUpdate h w)
            = effects w @ Request (csvUrl CONFIG @ ''?t='' @ decimal (clock w)) # es"
    using fetchAndUpdate_requests [OF assms(1)] by (simp add: fetchData_url_def)
  have b: "\<exists>es. effects (fetchAndUpdate2 h2 w2)
            = effects w2 @ Request (dataUrl CONFIG2 @ ''?t='' @ decimal (clock w2)) # es"
    using fetchAndUpdate2_requests [OF assms(2)] by (simp add: fetchData2_url_def)
  have c: "(fetchData_url m = fetchData_url n) = (m = n)"
    using decimal_inj [of m n] by (auto simp: fetchData_url_def)
  have c2: "(fetchData2_url m = fetchData2_url n) = (m = n)"
    using decimal_inj [of m n] by (auto simp: fetchData2_url_def)
  have e: "fetchData (Loaded 200 txt) = Inr (js_join [NL] (drop 1 (js_split NL (js_trim txt))))"
    by simp
  show ?thesis
    using a b c c2 e fetchData2_last_line [OF assms(3)] by (intro conjI)
qed

theorem C7_poll_and_current_record_witness:
  "\<not> isUpdating init_client \<and> \<not> isUpdating init_client2
   \<and> fetchData2 parse_digits (Loaded 200 ledger_csv_next)
       = Inr \<lparr>rec_date = ''19/12/2024'', rec_resistance = Num 99200, rec_support = Num 95800\<rparr>
   \<and> (\<exists>es. effects (fetchAndUpdate (example_host (Loaded 200 ledger_csv) (chart ''Volume'' [])) init_client)
         = Request (csvUrl CONFIG @ ''?t='' @ decimal 0) # es)
   \<and> (\<exists>es. effects (fetchAndUpdate2 (example_host2 (Loaded 200 ledger_csv) [legend2 ''Volume'' None]) init_client2)
         = Request (dataUrl CONFIG2 @ ''?t='' @ decimal 0) # es)
   \<and> fetchData_url 0 \<noteq> fetchData_url 900000"
proof -
  have g1: "\<not> isUpdating init_client" and g2: "\<not> isUpdating init_client2"
    by (simp_all add: init_client_def init_client2_def)
  have f: "fetchData2 parse_digits (Loaded 200 ledger_csv_next)
       = Inr \<lparr>rec_date = ''19/12/2024'', rec_resistance = Num 99200, rec_support = Num 95800\<rparr>"
    by (simp add: example_defs js_trim_def is_space_def upt_rec)
  note t = C7_poll_and_current_record [OF g1 g2 f,
      of "example_host (Loaded 200 ledger_csv) (chart ''Volume'' [])"
         "example_host2 (Loaded 200 ledger_csv) [legend2 ''Volume'' None]" 0 900000]
  have c0: "clock init_client = 0" "effects init_client = []"
    "clock init_client2 = 0" "effects init_client2 = []"
    by (simp_all add: init_client_def init_client2_def)
  show ?thesis
    using t g1 g2 f by (simp add: c0)
qed

section \<open>The commit step (C5)\<close>

lemma updateIndicatorInput_apply_result:
  "updateIndicatorInput_apply dlg w =
     (True,
      w\<lparr>effects := effects w @
           (case ok_button (dlg_buttons dlg) of
              Some btn \<Rightarrow> [Click btn, Log ''Options Levels: Settings applied'']
            | None \<Rightarrow> (case dlg_submit dlg of Some submitBtn \<Rightarrow> [Click submitBtn] | None \<Rightarrow> []))\<rparr>)"
  by (simp add: updateIndicatorInput_apply_def emit_def split: option.splits)

lemma updateIndicatorInput_write_suspends:
  assumes "updateIndicatorInput_write p data w = (Suspends dlg, w1)"
  shows "select_dialog p = Some dlg
       \<and> (\<exists>ta. ta \<in> set (dlg_textareas dlg) \<and> target_textarea (dlg_textareas dlg) = Inr (Some ta)
            \<and> effects w1 = effects w @ [SetValue (ta_id ta) data, Dispatch (ta_id ta) ''input'',
                 Dispatch (ta_id ta) ''change'', Log ''Options Levels: Data updated in textarea''])"
proof -
  have mem: "labelled_textarea tas = Inr (Some ta) \<Longrightarrow> ta \<in> set tas" for tas ta
    by (induction tas) (auto split: if_splits option.splits)
  have mem2: "target_textarea tas = Inr (Some ta) \<Longrightarrow> ta \<in> set tas" for tas ta
    using mem [of tas ta]
    by (auto simp: target_textarea_def split: sum.splits option.splits list.splits)
  show ?thesis
    using assms mem2 [of "dlg_textareas dlg"]
    by (auto simp: updateIndicatorInput_write_def Let_def split: option.splits sum.splits if_splits)
qed

text \<open>
  The button the loop of version 1.0 clicks is the first one whose text contains \<^verbatim>\<open>OK\<close>.
  The loop of version 2.0 returns true exactly when some legend item commits; an item
  whose dialog has no submit button is left behind with its inputs written, and the loop
  goes on with the rest; the submit button clicked is that of the first item that
  commits.
\<close>

lemma ok_button_find:
  "ok_button bs = map_option btn_id (find (\<lambda>btn. js_includes (btn_text btn) ''OK'') bs)"
  by (induction bs) auto

lemma updateIndicatorSettings_result:
  "fst (updateIndicatorSettings r s items w) = list_ex commits items"
  by (induction r s items w rule: updateIndicatorSettings.induct)
    (auto simp: commits_def opens_settings_def split: option.splits)

lemma updateIndicatorSettings_goes_on:
  assumes "opens_settings item" and "legend_settings item = Some b"
    and "opened_dialog item = Some dlg" and "dlg2_submit dlg = None"
  shows "updateIndicatorSettings r s (item # rest) w
           = updateIndicatorSettings r s rest
               (sleep 200 (write_inputs r s (dlg2_inputs dlg) (sleep 600 (emit (Click b) w))))"
  using assms by (auto simp: opens_settings_def split: option.splits)

lemma updateIndicatorSettings_skips:
  assumes "\<not> commits item"
  shows "\<exists>w' es. updateIndicatorSettings r s (item # rest) w = updateIndicatorSettings r s rest w'
           \<and> effects w' = effects w @ es"
proof (cases "opens_settings item")
  case False
  have "updateIndicatorSettings r s (item # rest) w = updateIndicatorSettings r s rest w
      \<and> effects w = effects w @ []"
    using False by (auto simp: opens_settings_def split: option.splits)
  then show ?thesis by blast
next
  case True
  then obtain b where b: "legend_settings item = Some b"
    by (auto simp: opens_settings_def)
  show ?thesis
  proof (cases "opened_dialog item")
    case None
    have "updateIndicatorSettings r s (item # rest) w
        = updateIndicatorSettings r s rest (sleep 600 (emit (Click b) w))
      \<and> effects (sleep 600 (emit (Click b) w)) = effects w @ [Click b]"
      using True b None by (auto simp: opens_settings_def split: option.splits)
    then show ?thesis by blast
  next
    case (Some dlg)
    then have n: "dlg2_submit dlg = None"
      using assms True by (simp add: commits_def)
    let ?w' = "sleep 200 (write_inputs r s (dlg2_inputs dlg) (sleep 600 (emit (Click b) w)))"
    obtain es where "effects ?w' = effects w @ [Click b] @ es"
      using write_inputs_effects [of r s "dlg2_inputs dlg" "sleep 600 (emit (Click b) w)"] by auto
    then have "updateIndicatorSettings r s (item # rest) w = updateIndicatorSettings r s rest ?w'
        \<and> effects ?w' = effects w @ ([Click b] @ es)"
      using updateIndicatorSettings_goes_on [OF True b Some n] by simp
    then show ?thesis by blast
  qed
qed

lemma updateIndicatorSettings_commit:
  "find commits items = Some item \<Longrightarrow>
     \<exists>dlg okBtn es. opened_dialog item = Some dlg \<and> dlg2_submit dlg = Some okBtn
        \<and> effects (snd (updateIndicatorSettings r s items w)) = effects w @ es @ [Click okBtn]"
proof (induction items arbitrary: w)
  case Nil
  then show ?case by simp
next
  case (Cons x rest)
  show ?case
  proof (cases "commits x")
    case True
    then have x: "item = x" using Cons.prems by simp
    from True obtain t b dlg okBtn where f: "legend_title x = Some t"
      "js_includes (toLowerCase t) ''options''" "legend_settings x = Some b"
      "opened_dialog x = Some dlg" "dlg2_submit dlg = Some okBtn"
      by (auto simp: commits_def opens_settings_def split: option.splits)
    obtain es where "effects (write_inputs r s (dlg2_inputs dlg) (sleep 600 (emit (Click b) w)))
        = effects w @ [Click b] @ es"
      using write_inputs_effects [of r s "dlg2_inputs dlg" "sleep 600 (emit (Click b) w)"] by auto
    then have "opened_dialog item = Some dlg \<and> dlg2_submit dlg = Some okBtn
        \<and> effects (snd (updateIndicatorSettings r s (x # rest) w)) = effects w @ ([Click b] @ es) @ [Click okBtn]"
      using f x by simp
    then show ?thesis by blast
  next
    case False
    then have fr: "find commits rest = Some item" using Cons.prems by simp
    obtain w' es0 where s: "updateIndicatorSettings r s (x # rest) w = updateIndicatorSettings r s rest w'"
      "effects w' = effects w @ es0"
      using updateIndicatorSettings_skips [OF False] by blast
    obtain dlg okBtn es where "opened_dialog item = Some dlg" "dlg2_submit dlg = Some okBtn"
      "effects (snd (updateIndicatorSettings r s rest w')) = effects w' @ es @ [Click okBtn]"
      using Cons.IH [OF fr, of w'] by blast
    then have "opened_dialog item = Some dlg \<and> dlg2_submit dlg = Some okBtn
        \<and> effects (snd (updateIndicatorSettings r s (x # rest) w)) = effects w @ (es0 @ es) @ [Click okBtn]"
      using s by simp
    then show ?thesis by blast
  qed
qed

lemma list_ex_find: "list_ex P xs \<Longrightarrow> \<exists>x. x \<in> set xs \<and> find P xs = Some x"
  by (induction xs) auto

text \<open>
  Claim C5 says that an attempt that reaches the commit step is a success only if a confirm
  action was found and triggered.  In version 1.0 the dialog here has a text area but
  neither an OK button nor a submit button: the driver writes the data, clicks nothing
  after it, and returns true; \<^verbatim>\<open>fetchAndUpdate\<close> then reports the update as done.
\<close>

theorem C5_counterexample:
  "ok_button (dlg_buttons dialog_without_confirm) = None \<and> dlg_submit dialog_without_confirm = None
   \<and> fst (updateIndicatorInput (chart ''Options Levels Tracker'' [dialog_without_confirm]) ledger_day1
            init_client) = Inr True
   \<and> effects (snd (updateIndicatorInput (chart ''Options Levels Tracker'' [dialog_without_confirm])
                     ledger_day1 init_client))
       = [SetValue 20 ledger_day1, Dispatch 20 ''input'', Dispatch 20 ''change'',
          Log ''Options Levels: Data updated in textarea'']
   \<and> status_text (fetchAndUpdate
        (example_host (Loaded 200 ledger_csv) (chart ''Options Levels Tracker'' [dialog_without_confirm]))
        init_client)
       = Some (''Options Levels: Updated '' @ check_mark)"
  apply (simp only: run_no_confirm)
  by (simp add: script_defs example_defs)

text \<open>
  Claim C5 as amended.  Version 1.0: once the text area has been written (the function is
  at its second sleep), the attempt returns true whether or not a confirm action is found;
  it clicks the first button whose text contains \<^verbatim>\<open>OK\<close>, else the submit button, else
  nothing, and adds no other effect.  Version 2.0: the attempt returns true exactly when
  some legend item that the loop opens has a dialog with a submit button; the click on the
  submit button of the first such item is then its last effect.  A dialog without a submit
  button makes the loop go on with the next legend item, and the attempt returns false
  when no item is left, with no error kind of its own.  Neither version takes back what it
  wrote: the effects made before stay.
\<close>

theorem C5_commit_outcome:
  assumes "updateIndicatorInput_write p data (sleep 500 w) = (Suspends dlg, w1)"
    and "fst (updateIndicatorSettings r s items w2)"
    and "opens_settings item0" and "legend_settings item0 = Some b0"
    and "opened_dialog item0 = Some dlg0" and "dlg2_submit dlg0 = None"
  shows "(\<exists>ta. ta \<in> set (dlg_textareas dlg)
            \<and> effects w1 = effects w @ [SetValue (ta_id ta) data, Dispatch (ta_id ta) ''input'',
                 Dispatch (ta_id ta) ''change'', Log ''Options Levels: Data updated in textarea''])
       \<and> fst (updateIndicatorInput p data w) = Inr True
       \<and> effects (snd (updateIndicatorInput p data w))
           = effects w1 @
               (case ok_button (dlg_buttons dlg) of
                  Some btn \<Rightarrow> [Click btn, Log ''Options Levels: Settings applied'']
                | None \<Rightarrow> (case dlg_submit dlg of Some submitBtn \<Rightarrow> [Click submitBtn] | None \<Rightarrow> []))
       \<and> ok_button (dlg_buttons dlg)
           = map_option btn_id (find (\<lambda>btn. js_includes (btn_text btn) ''OK'') (dlg_buttons dlg))
       \<and> (\<exists>item dlg2 okBtn es. item \<in> set items \<and> find commits items = Some item
            \<and> opened_dialog item = Some dlg2 \<and> dlg2_submit dlg2 = Some okBtn
            \<and> effects (snd (updateIndicatorSettings r s items w2)) = effects w2 @ es @ [Click okBtn])
       \<and> fst (updateIndicatorSettings r s items' u) = list_ex commits items'
       \<and> updateIndicatorSettings r s (item0 # rest) u
           = updateIndicatorSettings r s rest
               (sleep 200 (write_inputs r s (dlg2_inputs dlg0) (sleep 600 (emit (Click b0) u))))
       \<and> updateIndicatorSettings r s [] u = (False, u)
       \<and> (\<exists>es. effects (snd (updateIndicatorSettings r s items' u)) = effects u @ es)"
proof -
  have a: "\<exists>ta. ta \<in> set (dlg_textareas dlg)
            \<and> effects w1 = effects w @ [SetValue (ta_id ta) data, Dispatch (ta_id ta) ''input'',
                 Dispatch (ta_id ta) ''change'', Log ''Options Levels: Data updated in textarea'']"
    using updateIndicatorInput_write_suspends [OF assms(1)] by auto
  have b: "updateIndicatorInput p data w = (Inr True, snd (updateIndicatorInput_apply dlg (sleep 300 w1)))"
    by (simp add: updateIndicatorInput_def assms(1) updateIndicatorInput_apply_result)
  have c: "effects (snd (updateIndicatorInput p data w))
           = effects w1 @
               (case ok_button (dlg_buttons dlg) of
                  Some btn \<Rightarrow> [Click btn, Log ''Options Levels: Settings applied'']
                | None \<Rightarrow> (case dlg_submit dlg of Some submitBtn \<Rightarrow> [Click submitBtn] | None \<Rightarrow> []))"
    unfolding b by (simp add: updateIndicatorInput_apply_result)
  have "list_ex commits items"
    using assms(2) by (simp add: updateIndicatorSettings_result)
  then obtain item where i: "item \<in> set items" "find commits items = Some item"
    using list_ex_find by blast
  obtain dlg2 okBtn es where "opened_dialog item = Some dlg2" "dlg2_submit dlg2 = Some okBtn"
    "effects (snd (updateIndicatorSettings r s items w2)) = effects w2 @ es @ [Click okBtn]"
    using updateIndicatorSettings_commit [OF i(2)] by blast
  then have d: "\<exists>item dlg2 okBtn es. item \<in> set items \<and> find commits items = Some item
            \<and> opened_dialog item = Some dlg2 \<and> dlg2_submit dlg2 = Some okBtn
            \<and> effects (snd (updateIndicatorSettings r s items w2)) = effects w2 @ es @ [Click okBtn]"
    using i by blast
  have e: "updateIndicatorSettings r s (item0 # rest) u
           = updateIndicatorSettings r s rest
               (sleep 200 (write_inputs r s (dlg2_inputs dlg0) (sleep 600 (emit (Click b0) u))))"
    using assms(3,4,5,6) by (rule updateIndicatorSettings_goes_on)
  show ?thesis
    using a b c d e ok_button_find [of "dlg_buttons dlg"]
      updateIndicatorSettings_result [of r s items' u]
      updateIndicatorSettings_effects [of r s items' u]
    by simp
qed

theorem C5_commit_outcome_witness:
  "updateIndicatorInput_write (chart ''Options Levels Tracker'' [dialog_apply_ok]) ledger_day1
       (sleep 500 init_client)
     = (Suspends dialog_apply_ok,
        init_client\<lparr>clock := 500,
          effects := [SetValue 20 ledger_day1, Dispatch 20 ''input'', Dispatch 20 ''change'',
                      Log ''Options Levels: Data updated in textarea'']\<rparr>)
   \<and> opens_settings (legend2 ''Options Levels Tracker'' (Some levels_dialog_no_submit))
   \<and> dlg2_submit levels_dialog_no_submit = None
   \<and> fst (updateIndicatorSettings (Num 98500) (Num 95200)
            [legend2 ''Options Levels Tracker'' (Some levels_dialog_no_submit),
             (legend2 ''Options Levels Tracker'' (Some levels_dialog))\<lparr>legend_settings := Some 8\<rparr>]
            init_client2)
   \<and> fst (updateIndicatorInput (chart ''Options Levels Tracker'' [dialog_apply_ok]) ledger_day1
            init_client) = Inr True
   \<and> effects (snd (updateIndicatorInput (chart ''Options Levels Tracker'' [dialog_apply_ok])
                     ledger_day1 init_client))
       = [SetValue 20 ledger_day1, Dispatch 20 ''input'', Dispatch 20 ''change'',
          Log ''Options Levels: Data updated in textarea'', Click 31,
          Log ''Options Levels: Settings applied'']
   \<and> (\<exists>es. effects (snd (updateIndicatorSettings (Num 98500) (Num 95200)
            [legend2 ''Options Levels Tracker'' (Some levels_dialog_no_submit),
             (legend2 ''Options Levels Tracker'' (Some levels_dialog))\<lparr>legend_settings := Some 8\<rparr>]
            init_client2))
         = es @ [Click 50])
   \<and> fst (updateIndicatorSettings (Num 98500) (Num 95200)
            [legend2 ''Options Levels Tracker'' (Some levels_dialog_no_submit)] init_client2) = False
   \<and> updateIndicatorSettings (Num 98500) (Num 95200)
        [legend2 ''Options Levels Tracker'' (Some levels_dialog_no_submit),
         (legend2 ''Options Levels Tracker'' (Some levels_dialog))\<lparr>legend_settings := Some 8\<rparr>]
        init_client2
       = updateIndicatorSettings (Num 98500) (Num 95200)
           [(legend2 ''Options Levels Tracker'' (Some levels_dialog))\<lparr>legend_settings := Some 8\<rparr>]
           (init_client2\<lparr>clock := 800,
              effects := [Click 7, SetNumber 42 (Num 98500), Dispatch 42 ''input'',
                          Dispatch 42 ''change'']\<rparr>)"
proof -
  let ?p = "chart ''Options Levels Tracker'' [dialog_apply_ok]"
  let ?i0 = "legend2 ''Options Levels Tracker'' (Some levels_dialog_no_submit)"
  let ?i1 = "(legend2 ''Options Levels Tracker'' (Some levels_dialog))\<lparr>legend_settings := Some 8\<rparr>"
  have a: "updateIndicatorInput_write ?p ledger_day1 (sleep 500 init_client)
     = (Suspends dialog_apply_ok,
        init_client\<lparr>clock := 500,
          effects := [SetValue 20 ledger_day1, Dispatch 20 ''input'', Dispatch 20 ''change'',
                      Log ''Options Levels: Data updated in textarea'']\<rparr>)"
    by (simp add: script_defs example_defs)
  have b: "fst (updateIndicatorSettings (Num 98500) (Num 95200) [?i0, ?i1] init_client2)"
    by (simp add: script2_defs example_defs)
  have c: "opens_settings ?i0" "legend_settings ?i0 = Some 7"
    "opened_dialog ?i0 = Some levels_dialog_no_submit" "dlg2_submit levels_dialog_no_submit = None"
    by (simp_all add: opens_settings_def legend2_def levels_dialog_no_submit_def toLowerCase_def
        lower_char_def)
  note t = C5_commit_outcome [OF a b c, where items' = "[?i0]" and u = init_client2 and rest = "[?i1]"]
  have d: "effects (snd (updateIndicatorInput ?p ledger_day1 init_client))
       = [SetValue 20 ledger_day1, Dispatch 20 ''input'', Dispatch 20 ''change'',
          Log ''Options Levels: Data updated in textarea'', Click 31,
          Log ''Options Levels: Settings applied'']"
    using t by (simp add: dialog_apply_ok_def init_client_def)
  have e: "\<exists>es. effects (snd (updateIndicatorSettings (Num 98500) (Num 95200) [?i0, ?i1] init_client2))
         = es @ [Click 50]"
    using t by (auto simp: legend2_def levels_dialog_def levels_dialog_no_submit_def init_client2_def)
  have f: "fst (updateIndicatorSettings (Num 98500) (Num 95200) [?i0] init_client2) = False"
    using t by (simp add: commits_def c)
  have g: "updateIndicatorSettings (Num 98500) (Num 95200) [?i0, ?i1] init_client2
       = updateIndicatorSettings (Num 98500) (Num 95200) [?i1]
           (init_client2\<lparr>clock := 800,
              effects := [Click 7, SetNumber 42 (Num 98500), Dispatch 42 ''input'',
                          Dispatch 42 ''change'']\<rparr>)"
    apply (subst t [THEN conjunct2, THEN conjunct2, THEN conjunct2, THEN conjunct2, THEN conjunct2,
        THEN conjunct2, THEN conjunct1])
    by (simp add: levels_dialog_no_submit_def init_client2_def setInputValue_def emit_def sleep_def
        toLowerCase_def lower_char_def)
  show ?thesis
    using a b c(1,4) t [THEN conjunct2, THEN conjunct1] d e f g by (intro conjI)
qed

section \<open>How the fields are found (C9)\<close>

lemma labelled_textarea_find:
  "\<forall>ta \<in> set tas. ta_placeholder ta \<noteq> None \<Longrightarrow> labelled_textarea tas = Inr (find data_label tas)"
  by (induction tas) (auto simp: data_label_def split: option.splits)

lemma target_textarea_find:
  assumes "\<forall>ta \<in> set tas. ta_placeholder ta \<noteq> None"
  shows "target_textarea tas =
           Inr (case find data_label tas of
                  Some ta \<Rightarrow> Some ta
                | None \<Rightarrow> (case tas of [] \<Rightarrow> None | first # _ \<Rightarrow> Some first))"
  by (simp add: target_textarea_def labelled_textarea_find [OF assms] split: option.splits)

lemma write_inputs_each:
  "write_inputs r s ins w = w\<lparr>effects := effects w @ concat (map (input_effects r s) ins)\<rparr>"
proof (induction r s ins w rule: write_inputs.induct)
  case (1 r s w)
  show ?case by simp
next
  case (2 r s input rest w)
  then show ?case
    by (simp add: Let_def input_effects_def input_label_def setInputValue_def emit_def)
qed

text \<open>
  Claim C9 says that the fields are found by their label against the level names, with the
  first input as the fallback when no label matches.  Version 2.0 has no fallback: in a
  dialog whose inputs carry no level name nothing is written, and the submit button is
  clicked all the same.  Version 1.0 does not look for level names: of a text area
  labelled with one and a text area labelled \<^verbatim>\<open>PASTE DATA\<close> it takes the second.
\<close>

theorem C9_counterexample:
  "write_inputs (Num 98500) (Num 95200) (dlg2_inputs unlabelled_dialog) init_client2 = init_client2
   \<and> updateIndicatorSettings (Num 98500) (Num 95200)
        [legend2 ''Options Levels Tracker'' (Some unlabelled_dialog)] init_client2
       = (True, init_client2\<lparr>clock := 800, effects := [Click 7, Click 50]\<rparr>)
   \<and> target_textarea [level_textarea, data_textarea] = Inr (Some data_textarea)"
  by (simp add: script2_defs script_defs example_defs)

text \<open>
  Claim C9 as amended.  Version 1.0 looks for one text area: the first whose surrounding
  text contains \<^verbatim>\<open>PASTE DATA\<close> or \<^verbatim>\<open>data\<close> or whose placeholder contains \<^verbatim>\<open>data\<close>, else
  the first text area of the dialog, else none (every text area having a placeholder).
  Version 2.0 treats each input on its own: it writes the resistance when the lower-cased
  label contains \<^verbatim>\<open>resistance\<close> or \<^verbatim>\<open>high\<close>, else the support when it contains
  \<^verbatim>\<open>support\<close> or \<^verbatim>\<open>low\<close>, else nothing, and goes on with the next input; there is no
  fallback by position.
\<close>

theorem C9_field_resolution:
  assumes "\<forall>ta \<in> set tas. ta_placeholder ta \<noteq> None"
  shows "target_textarea tas =
           Inr (case find data_label tas of
                  Some ta \<Rightarrow> Some ta
                | None \<Rightarrow> (case tas of [] \<Rightarrow> None | first # _ \<Rightarrow> Some first))
       \<and> write_inputs r s ins w = w\<lparr>effects := effects w @ concat (map (input_effects r s) ins)\<rparr>"
  using target_textarea_find [OF assms] write_inputs_each by simp

theorem C9_field_resolution_witness:
  "ta_placeholder level_textarea \<noteq> None \<and> ta_placeholder data_textarea \<noteq> None
   \<and> target_textarea [level_textarea, data_textarea] = Inr (Some data_textarea)
   \<and> target_textarea [level_textarea] = Inr (Some level_textarea)
   \<and> effects (write_inputs (Num 98500) (Num 95200)
        (\<lparr>in_id = 39, in_row_text = Some ''Length''\<rparr> # dlg2_inputs levels_dialog) init_client2)
       = [SetNumber 40 (Num 98500), Dispatch 40 ''input'', Dispatch 40 ''change'',
          SetNumber 41 (Num 95200), Dispatch 41 ''input'', Dispatch 41 ''change'']"
proof -
  have p: "\<forall>ta \<in> set [level_textarea, data_textarea]. ta_placeholder ta \<noteq> None"
    and q: "\<forall>ta \<in> set [level_textarea]. ta_placeholder ta \<noteq> None"
    by (simp_all add: level_textarea_def data_textarea_def)
  show ?thesis
    using C9_field_resolution [OF p, of "Num 98500" "Num 95200"
        "\<lparr>in_id = 39, in_row_text = Some ''Length''\<rparr> # dlg2_inputs levels_dialog" init_client2]
      C9_field_resolution [OF q]
    by (simp add: level_textarea_def data_textarea_def data_label_def levels_dialog_def
        input_effects_def input_label_def toLowerCase_def lower_char_def init_client2_def)
qed

section \<open>Which indicator is located (C6)\<close>

text \<open>
  Version 1.0 (\<^verbatim>\<open>findIndicatorSettings\<close>) matches \<^verbatim>\<open>CONFIG.indicatorName\<close>: on a page where
  no legend title and no indicator item contains that name it returns false and leaves
  the client, its effects included, as it was.
\<close>

lemma findIndicatorSettings_legends_none:
  "\<forall>l \<in> set ls. \<forall>t. legend_title l = Some t \<longrightarrow> \<not> js_includes t (indicatorName CONFIG)
     \<Longrightarrow> findIndicatorSettings_legends ls = None"
  by (induction ls) (auto split: option.splits)

lemma findIndicatorSettings_items_none:
  "\<forall>i \<in> set is. \<not> js_includes (item_text i) (indicatorName CONFIG)
     \<Longrightarrow> findIndicatorSettings_items is = None"
  by (induction "is") (auto split: option.splits)

theorem findIndicatorSettings_no_match:
  assumes "\<forall>l \<in> set (legends p). \<forall>t. legend_title l = Some t \<longrightarrow> \<not> js_includes t (indicatorName CONFIG)"
    and "\<forall>i \<in> set (indicator_items p). \<not> js_includes (item_text i) (indicatorName CONFIG)"
  shows "findIndicatorSettings p w = (False, w)"
  by (simp add: findIndicatorSettings_def findIndicatorSettings_legends_none [OF assms(1)]
      findIndicatorSettings_items_none [OF assms(2)])

theorem findIndicatorSettings_no_match_witness:
  "\<not> js_includes ''Stock Options Flow'' (indicatorName CONFIG)
   \<and> findIndicatorSettings (chart ''Stock Options Flow'' []) init_client = (False, init_client)"
  using findIndicatorSettings_no_match [of "chart ''Stock Options Flow'' []" init_client]
  by (simp add: chart_def CONFIG_def)

text \<open>
  Claim C6, for version 2.0.  Its \<^verbatim>\<open>CONFIG.indicatorName\<close> is \<^verbatim>\<open>Options Levels\<close>, but
  \<^verbatim>\<open>updateIndicatorSettings\<close> never reads it: it takes any legend item whose lower-cased
  title contains \<^verbatim>\<open>options\<close>.  On a chart whose only indicator is titled
  \<^verbatim>\<open>Stock Options Flow\<close>, which does not contain the configured name, the script clicks
  that indicator's settings button, overwrites its inputs and submits.
\<close>

theorem C6_v2_ignores_configured_name:
  "\<not> js_includes ''Stock Options Flow'' (indicatorName CONFIG2)
   \<and> updateIndicatorSettings (Num 98500) (Num 95200)
        [legend2 ''Stock Options Flow'' (Some levels_dialog)] init_client2
       = (True,
          init_client2\<lparr>clock := 800,
            effects := [Click 7,
              SetNumber 40 (Num 98500), Dispatch 40 ''input'', Dispatch 40 ''change'',
              SetNumber 41 (Num 95200), Dispatch 41 ''input'', Dispatch 41 ''change'', Click 50]\<rparr>)"
  by (simp add: script2_defs example_defs)

section \<open>A level that does not parse (C10)\<close>

lemma record_changed_nan:
  "rec_resistance d = NaN \<or> rec_support d = NaN \<Longrightarrow> record_changed d w"
  by (auto simp: record_changed_def strict_neq_def)

lemma after_update2_last:
  "last (effects (after_update2 h d b w)) = LogRecord ''Options Levels updated:'' d"
  by (simp add: after_update2_def)

lemma fetchAndUpdate2_nan:
  assumes "\<not> isUpdating w" and "fetchData2 (parseFloat h) (response h) = Inr d"
    and "rec_resistance d = NaN \<or> rec_support d = NaN"
  shows "resistance (fetchAndUpdate2 h w) = rec_resistance d
       \<and> support (fetchAndUpdate2 h w) = rec_support d
       \<and> last (effects (fetchAndUpdate2 h w)) = LogRecord ''Options Levels updated:'' d
       \<and> \<not> isUpdating (fetchAndUpdate2 h w)"
  using assms fetchAndUpdate2_levels [OF assms(1,2)] fetchAndUpdate2_guard [OF assms(1)]
    record_changed_nan [OF assms(3)]
  by (simp add: fetchAndUpdate2_changed after_update2_last split: prod.splits)

lemma polls_nan:
  assumes "\<forall>h \<in> set hs. fetchData2 (parseFloat h) (response h) = Inr d"
    and "rec_resistance d = NaN \<or> rec_support d = NaN"
    and "hs \<noteq> []" and "\<not> isUpdating w"
  shows "resistance (fold fetchAndUpdate2 hs w) = rec_resistance d
       \<and> support (fold fetchAndUpdate2 hs w) = rec_support d
       \<and> last (effects (fold fetchAndUpdate2 hs w)) = LogRecord ''Options Levels updated:'' d
       \<and> \<not> isUpdating (fold fetchAndUpdate2 hs w)"
  using assms(1,3,4)
proof (induction hs arbitrary: w rule: rev_induct)
  case Nil
  then show ?case by simp
next
  case (snoc h hs)
  have g: "\<not> isUpdating (fold fetchAndUpdate2 hs w)"
  proof (cases "hs = []")
    case True
    then show ?thesis using snoc.prems by simp
  next
    case False
    then show ?thesis using snoc.IH [of w] snoc.prems by simp
  qed
  have f: "fetchData2 (parseFloat h) (response h) = Inr d"
    using snoc.prems by simp
  show ?case
    using fetchAndUpdate2_nan [OF g f assms(2)] by simp
qed

lemma fetchData2_accepts:
  assumes "length (js_split NL (js_trim txt)) > 1"
    and "length (js_split (CHR '','') (last (js_split NL (js_trim txt)))) \<ge> 3"
  shows "fetchData2 pf (Loaded 200 txt) =
           Inr \<lparr>rec_date = js_split (CHR '','') (last (js_split NL (js_trim txt))) ! 0,
                rec_resistance = pf (js_split (CHR '','') (last (js_split NL (js_trim txt))) ! 1),
                rec_support = pf (js_split (CHR '','') (last (js_split NL (js_trim txt))) ! 2)\<rparr>"
proof -
  let ?lines = "js_split NL (js_trim txt)"
  have "?lines ! (length ?lines - 1) = last ?lines"
    using assms(1) by (cases "?lines = []") (simp_all add: last_conv_nth)
  then show ?thesis
    using assms by (simp add: Let_def)
qed

text \<open>
  Two polls of a ledger whose levels carry a suffix, on the runtime of the examples (the
  browser's \<^verbatim>\<open>parseFloat\<close> reads these two fields as it does).
\<close>

lemma run2_suffixed:
  "fetchAndUpdate2 (example_host2 (Loaded 200 ledger_csv_suffixed) [legend2 ''Volume'' None]) init_client2
   = \<lparr>isUpdating = False, clock = 120,
      effects = [Request (fetchData2_url 0),
        LogRecord ''Options Levels updated:''
          \<lparr>rec_date = ''19/12/2024'', rec_resistance = Num 98500, rec_support = Num 95200\<rparr>],
      resistance = Num 98500, support = Num 95200, lastUpdate = Some 120,
      ol_resistance = Some (''$'' @ decimal 98500), ol_support = Some (''$'' @ decimal 95200),
      ol_status = Some (''Updated: '' @ decimal 120, ''ol-status success'')\<rparr>"
  by (simp add: script2_defs example_defs upt_rec)

lemma run2_suffixed_again:
  "fetchAndUpdate2 (example_host2 (Loaded 200 ledger_csv_suffixed) [legend2 ''Volume'' None])
     (fetchAndUpdate2 (example_host2 (Loaded 200 ledger_csv_suffixed) [legend2 ''Volume'' None]) init_client2)
   = \<lparr>isUpdating = False, clock = 240,
      effects = [Request (fetchData2_url 0),
        LogRecord ''Options Levels updated:''
          \<lparr>rec_date = ''19/12/2024'', rec_resistance = Num 98500, rec_support = Num 95200\<rparr>,
        Request (fetchData2_url 120)],
      resistance = Num 98500, support = Num 95200, lastUpdate = Some 120,
      ol_resistance = Some (''$'' @ decimal 98500), ol_support = Some (''$'' @ decimal 95200),
      ol_status = Some (''No changes'', ''ol-status '')\<rparr>"
  unfolding run2_suffixed by (simp add: script2_defs example_defs upt_rec)

text \<open>
  Claim C10 says that every last line whose resistance or support field is non-numeric
  resolves with \<open>NaN\<close> and is treated as changed on every poll.  \<^verbatim>\<open>parseFloat\<close> reads the
  number a field begins with: the fields \<^verbatim>\<open>98500abc\<close> and \<^verbatim>\<open>95200usd\<close> are no numerals,
  yet the record resolves with 98500 and 95200, and the second poll of that ledger
  reports no change.
\<close>

theorem C10_counterexample:
  "js_split (CHR '','') (last (js_split NL (js_trim ledger_csv_suffixed)))
     = [''19/12/2024'', ''98500abc'', ''95200usd'', ''1'', ''2'']
   \<and> \<not> numeral_text ''98500abc'' \<and> \<not> numeral_text ''95200usd''
   \<and> fetchData2 parse_digits (Loaded 200 ledger_csv_suffixed)
       = Inr \<lparr>rec_date = ''19/12/2024'', rec_resistance = Num 98500, rec_support = Num 95200\<rparr>
   \<and> rec_resistance \<lparr>rec_date = ''19/12/2024'', rec_resistance = Num 98500, rec_support = Num 95200\<rparr>
       \<noteq> NaN
   \<and> rec_support \<lparr>rec_date = ''19/12/2024'', rec_resistance = Num 98500, rec_support = Num 95200\<rparr>
       \<noteq> NaN
   \<and> effects (fetchAndUpdate2 (example_host2 (Loaded 200 ledger_csv_suffixed) [legend2 ''Volume'' None])
        (fetchAndUpdate2 (example_host2 (Loaded 200 ledger_csv_suffixed) [legend2 ''Volume'' None])
           init_client2))
       = effects (fetchAndUpdate2 (example_host2 (Loaded 200 ledger_csv_suffixed) [legend2 ''Volume'' None])
           init_client2) @ [Request (fetchData2_url 120)]
   \<and> ol_status (fetchAndUpdate2 (example_host2 (Loaded 200 ledger_csv_suffixed) [legend2 ''Volume'' None])
        (fetchAndUpdate2 (example_host2 (Loaded 200 ledger_csv_suffixed) [legend2 ''Volume'' None])
           init_client2))
       = Some (''No changes'', ''ol-status '')
   \<and> resistance (fetchAndUpdate2 (example_host2 (Loaded 200 ledger_csv_suffixed) [legend2 ''Volume'' None])
        (fetchAndUpdate2 (example_host2 (Loaded 200 ledger_csv_suffixed) [legend2 ''Volume'' None])
           init_client2))
       = Num 98500"
  apply (simp only: run2_suffixed_again)
  apply (simp only: run2_suffixed)
  by (simp add: example_defs js_trim_def is_space_def upt_rec numeral_text_def)

text \<open>
  Claim C10 as amended.  In version 2.0 a body of at least two lines whose last line has
  at least three comma-separated fields is accepted whatever the fields are: the record is
  that line's first field and \<^verbatim>\<open>parseFloat\<close> of the second and third.  When
  \<^verbatim>\<open>parseFloat\<close> maps one of the two to \<open>NaN\<close>, the record counts as changed against every
  stored state, and every poll of a run of polls that read this ledger stores the parsed
  levels (the \<open>NaN\<close> among them), takes the branch of a change (it ends with the console
  record of the update) and leaves the guard free for the next.
\<close>

theorem C10_nan_record_always_changed:
  assumes "length (js_split NL (js_trim txt)) > 1"
    and "length (js_split (CHR '','') (last (js_split NL (js_trim txt)))) \<ge> 3"
    and "pf (js_split (CHR '','') (last (js_split NL (js_trim txt))) ! 1) = NaN
         \<or> pf (js_split (CHR '','') (last (js_split NL (js_trim txt))) ! 2) = NaN"
    and "\<forall>h \<in> set hs. response h = Loaded 200 txt \<and> parseFloat h = pf"
    and "hs \<noteq> []" and "\<not> isUpdating w"
    and "d = \<lparr>rec_date = js_split (CHR '','') (last (js_split NL (js_trim txt))) ! 0,
              rec_resistance = pf (js_split (CHR '','') (last (js_split NL (js_trim txt))) ! 1),
              rec_support = pf (js_split (CHR '','') (last (js_split NL (js_trim txt))) ! 2)\<rparr>"
  shows "fetchData2 pf (Loaded 200 txt) = Inr d
       \<and> (\<forall>w'. record_changed d w')
       \<and> resistance (fold fetchAndUpdate2 hs w) = rec_resistance d
       \<and> support (fold fetchAndUpdate2 hs w) = rec_support d
       \<and> (resistance (fold fetchAndUpdate2 hs w) = NaN \<or> support (fold fetchAndUpdate2 hs w) = NaN)
       \<and> last (effects (fold fetchAndUpdate2 hs w)) = LogRecord ''Options Levels updated:'' d
       \<and> \<not> isUpdating (fold fetchAndUpdate2 hs w)"
proof -
  have a: "fetchData2 pf (Loaded 200 txt) = Inr d"
    unfolding assms(7) using assms(1,2) by (rule fetchData2_accepts)
  have n: "rec_resistance d = NaN \<or> rec_support d = NaN"
    using assms(3) by (simp add: assms(7))
  have hs: "\<forall>h \<in> set hs. fetchData2 (parseFloat h) (response h) = Inr d"
    using assms(4) a by simp
  have c: "\<forall>w'. record_changed d w'"
    using record_changed_nan [OF n] by simp
  show ?thesis
    using a c n polls_nan [OF hs n assms(5,6)] by simp
qed

theorem C10_nan_record_always_changed_witness:
  "js_split (CHR '','') (last (js_split NL (js_trim ledger_csv_corrupt)))
     = [''19/12/2024'', ''n/a'', ''95800'', ''99800'', ''95000'']
   \<and> parse_digits ''n/a'' = NaN
   \<and> fetchData2 parse_digits (Loaded 200 ledger_csv_corrupt)
       = Inr \<lparr>rec_date = ''19/12/2024'', rec_resistance = NaN, rec_support = Num 95800\<rparr>
   \<and> resistance (fold fetchAndUpdate2
        [example_host2 (Loaded 200 ledger_csv_corrupt) [legend2 ''Options Levels Tracker'' (Some levels_dialog)],
         example_host2 (Loaded 200 ledger_csv_corrupt) [legend2 ''Options Levels Tracker'' (Some levels_dialog)]]
        init_client2) = NaN
   \<and> last (effects (fold fetchAndUpdate2
        [example_host2 (Loaded 200 ledger_csv_corrupt) [legend2 ''Options Levels Tracker'' (Some levels_dialog)],
         example_host2 (Loaded 200 ledger_csv_corrupt) [legend2 ''Options Levels Tracker'' (Some levels_dialog)]]
        init_client2))
       = LogRecord ''Options Levels updated:''
           \<lparr>rec_date = ''19/12/2024'', rec_resistance = NaN, rec_support = Num 95800\<rparr>"
proof -
  let ?h = "example_host2 (Loaded 200 ledger_csv_corrupt) [legend2 ''Options Levels Tracker'' (Some levels_dialog)]"
  have parts: "js_split (CHR '','') (last (js_split NL (js_trim ledger_csv_corrupt)))
     = [''19/12/2024'', ''n/a'', ''95800'', ''99800'', ''95000'']"
    by (simp add: example_defs js_trim_def is_space_def)
  have lines: "length (js_split NL (js_trim ledger_csv_corrupt)) > 1"
    by (simp add: example_defs js_trim_def is_space_def)
  have nan: "parse_digits ''n/a'' = NaN" and num: "parse_digits ''95800'' = Num 95800"
    by (simp_all add: parse_digits_def digit_of_def upt_rec)
  have t: "fetchData2 parse_digits (Loaded 200 ledger_csv_corrupt)
        = Inr \<lparr>rec_date = ''19/12/2024'', rec_resistance = NaN, rec_support = Num 95800\<rparr>
     \<and> resistance (fold fetchAndUpdate2 [?h, ?h] init_client2) = NaN
     \<and> last (effects (fold fetchAndUpdate2 [?h, ?h] init_client2))
        = LogRecord ''Options Levels updated:''
            \<lparr>rec_date = ''19/12/2024'', rec_resistance = NaN, rec_support = Num 95800\<rparr>"
    using C10_nan_record_always_changed [of ledger_csv_corrupt parse_digits "[?h, ?h]" init_client2
        "\<lparr>rec_date = ''19/12/2024'', rec_resistance = NaN, rec_support = Num 95800\<rparr>"]
      lines
    by (simp add: parts nan num example_host2_def init_client2_def del: fold_simps)
  show ?thesis
    using parts nan t by simp
qed

section \<open>What the status observer is told (C8)\<close>

lemma updateStatus_status [simp]:
  "status_text (updateStatus h t b w) = map_option (\<lambda>_. t) (status_text w)"
  "status_details (updateStatus h t b w)
     = map_option (\<lambda>_. ''Last update: '' @ time_string h (clock w)) (status_details w)"
  by (simp_all add: updateStatus_def)

lemma catch_error_status [simp]:
  "status_text (catch_error h e w) = map_option (\<lambda>_. ''Error: '' @ error_message e) (status_text w)"
  "status_details (catch_error h e w)
     = map_option (\<lambda>_. ''Last update: '' @ time_string h (clock w)) (status_details w)"
  "clock (catch_error h e w) = clock w"
  by (simp_all add: catch_error_def)

lemma after_update_status [simp]:
  "status_text (after_update h d b w)
     = map_option (\<lambda>_. if b then ''Options Levels: Updated '' @ check_mark
                        else ''Update failed - manual paste needed'') (status_text w)"
  "status_details (after_update h d b w)
     = map_option (\<lambda>_. ''Last update: '' @ time_string h (clock w)) (status_details w)"
  "clock (after_update h d b w) = clock w"
  by (simp_all add: after_update_def Let_def)

lemma fetchAndUpdate_begin_status [simp]:
  "status_text (fetchAndUpdate_begin h w) = map_option (\<lambda>_. ''Updating...'') (status_text w)"
  "status_details (fetchAndUpdate_begin h w)
     = map_option (\<lambda>_. ''Last update: '' @ time_string h (clock w)) (status_details w)"
  by (simp_all add: fetchAndUpdate_begin_def Let_def)

lemma after_update2_status [simp]: "ol_status (after_update2 h d b w) = ol_status w"
  by (simp add: after_update2_def)

text \<open>Whether the drivers succeed depends on the page alone, not on the client.\<close>

lemma findIndicatorSettings_result:
  "fst (findIndicatorSettings p w)
     = (findIndicatorSettings_legends (legends p) \<noteq> None
        \<or> findIndicatorSettings_items (indicator_items p) \<noteq> None)"
  by (simp add: findIndicatorSettings_def split: option.splits)

lemma updateIndicatorInput_result:
  "fst (updateIndicatorInput p d w)
     = (case select_dialog p of
          None \<Rightarrow> Inr False
        | Some dlg \<Rightarrow>
            (case target_textarea (dlg_textareas dlg) of
               Inl e \<Rightarrow> Inl e
             | Inr None \<Rightarrow> Inr False
             | Inr (Some ta) \<Rightarrow> Inr True))"
  by (simp add: updateIndicatorInput_def updateIndicatorInput_write_def updateIndicatorInput_apply_result
      Let_def CONFIG_def split: option.splits sum.splits)

lemma fetchAndUpdate_status:
  assumes "\<not> isUpdating w" and "status_text w \<noteq> None" and "status_details w \<noteq> None"
  shows "status_text (fetchAndUpdate h w) =
           Some (case fetchData (response h) of
                   Inl e \<Rightarrow> ''Error: '' @ error_message e
                 | Inr data \<Rightarrow>
                     if data = lastData w then ''Options Levels: No changes''
                     else if \<not> fst (findIndicatorSettings (page h) w) then ''Indicator not found on chart''
                     else (case fst (updateIndicatorInput (page h) data w) of
                             Inl e \<Rightarrow> ''Error: '' @ error_message e
                           | Inr updated \<Rightarrow>
                               if updated then ''Options Levels: Updated '' @ check_mark
                               else ''Update failed - manual paste needed''))
       \<and> status_details (fetchAndUpdate h w)
           = Some (''Last update: '' @ time_string h (clock (fetchAndUpdate h w)))"
proof -
  obtain st sd where s: "status_text w = Some st" "status_details w = Some sd"
    using assms(2,3) by auto
  show ?thesis
  proof (cases "fetchData (response h)")
    case (Inl e)
    then show ?thesis
      using assms(1) s by (simp add: fetchAndUpdate_def fetchAndUpdate_fetched_def)
  next
    case (Inr data)
    show ?thesis
    proof (cases "data = lastData w")
      case True
      then show ?thesis
        using assms(1) Inr s by (simp add: fetchAndUpdate_unchanged)
    next
      case False
      let ?w0 = "(sleep (latency h) (fetchAndUpdate_begin h w))\<lparr>lastData := data\<rparr>"
      have s0: "status_text ?w0 = Some ''Updating...''" "\<exists>x. status_details ?w0 = Some x"
        using s by (simp_all add: fetchAndUpdate_begin_def Let_def)
      obtain f w1 where f: "findIndicatorSettings (page h) ?w0 = (f, w1)"
        by (cases "findIndicatorSettings (page h) ?w0")
      have ff: "fst (findIndicatorSettings (page h) w) = f"
        using f findIndicatorSettings_result [of "page h" ?w0] findIndicatorSettings_result [of "page h" w]
        by simp
      have s1: "status_text w1 = Some ''Updating...''" "\<exists>x. status_details w1 = Some x"
        using findIndicatorSettings_fields(4,6) [of "page h" ?w0] s0 by (simp_all add: f)
      show ?thesis
      proof (cases f)
        case no: False
        then show ?thesis
          using assms(1) Inr \<open>data \<noteq> lastData w\<close> s1
          by (auto simp: fetchAndUpdate_changed f ff)
      next
        case True
        obtain res w2 where u: "updateIndicatorInput (page h) data w1 = (res, w2)"
          by (cases "updateIndicatorInput (page h) data w1")
        have rr: "fst (updateIndicatorInput (page h) data w) = res"
          using u updateIndicatorInput_result [of "page h" data w1]
            updateIndicatorInput_result [of "page h" data w] by simp
        have s2: "status_text w2 = Some ''Updating...''" "\<exists>x. status_details w2 = Some x"
          using updateIndicatorInput_fields(3,5) [of "page h" data w1] s1 by (simp_all add: u)
        show ?thesis
          using assms(1) Inr \<open>data \<noteq> lastData w\<close> True s2
          by (cases res) (auto simp: fetchAndUpdate_changed f ff u rr)
      qed
    qed
  qed
qed

lemma fetchAndUpdate2_status:
  assumes "\<not> isUpdating w" and "ol_status w \<noteq> None"
  shows "ol_status (fetchAndUpdate2 h w) =
           Some (case fetchData2 (parseFloat h) (response h) of
                   Inl e \<Rightarrow> (''Error: '' @ error_message e, ''ol-status error'')
                 | Inr data \<Rightarrow>
                     if record_changed data w
                     then (''Updated: '' @ time_string h (clock w + latency h), ''ol-status success'')
                     else (''No changes'', ''ol-status ''))"
proof -
  obtain st where s: "ol_status w = Some st"
    using assms(2) by auto
  show ?thesis
  proof (cases "fetchData2 (parseFloat h) (response h)")
    case (Inl e)
    then show ?thesis
      using assms(1) s
      by (simp add: fetchAndUpdate2_def Let_def catch_error2_def setStatus_def fetchAndUpdate2_begin_def)
  next
    case (Inr data)
    show ?thesis
    proof (cases "record_changed data w")
      case False
      then show ?thesis
        using assms(1) Inr s
        by (simp add: fetchAndUpdate2_unchanged setStatus_def fetchAndUpdate2_begin_def Let_def)
    next
      case True
      let ?w0 = "store_record h data (sleep (latency h) (fetchAndUpdate2_begin w))"
      have "ol_status ?w0 = Some (''Updated: '' @ time_string h (clock w + latency h), ''ol-status success'')"
        using s by (simp add: store_record_def updateStatusPanel_def fetchAndUpdate2_begin_def
            setStatus_def Let_def)
      moreover obtain updated w1 where u: "updateIndicatorSettings (rec_resistance data) (rec_support data)
          (legendItems h) ?w0 = (updated, w1)"
        by (cases "updateIndicatorSettings (rec_resistance data) (rec_support data) (legendItems h) ?w0")
      moreover have "ol_status w1 = ol_status ?w0"
        using updateIndicatorSettings_fields(5) [of "rec_resistance data" "rec_support data" "legendItems h" ?w0]
        by (simp add: u)
      ultimately show ?thesis
        using assms(1) Inr True by (simp add: fetchAndUpdate2_changed)
    qed
  qed
qed

text \<open>
  Claim C8 says that every outcome, each error kind included, reaches the status observer
  with a reason and a time.  In version 2.0 the indicator is not on the chart here, so the
  driver returns false; the cycle ends with the status \<^verbatim>\<open>Updated:\<close> and the time, in the
  success style, and no effect but its request and the console record of the update.  The
  next cycle finds no change and reports it without a time.
\<close>

theorem C8_counterexample:
  "fst (updateIndicatorSettings (Num 98500) (Num 95200) [legend2 ''Volume'' None] init_client2) = False
   \<and> ol_status (fetchAndUpdate2 (example_host2 (Loaded 200 ledger_csv) [legend2 ''Volume'' None]) init_client2)
       = Some (''Updated: '' @ decimal 120, ''ol-status success'')
   \<and> effects (fetchAndUpdate2 (example_host2 (Loaded 200 ledger_csv) [legend2 ''Volume'' None]) init_client2)
       = [Request (fetchData2_url 0),
          LogRecord ''Options Levels updated:''
            \<lparr>rec_date = ''18/12/2024'', rec_resistance = Num 98500, rec_support = Num 95200\<rparr>]
   \<and> clock (fetchAndUpdate2 (example_host2 (Loaded 200 ledger_csv) [legend2 ''Volume'' None])
        (fetchAndUpdate2 (example_host2 (Loaded 200 ledger_csv) [legend2 ''Volume'' None]) init_client2))
       = 240
   \<and> ol_status (fetchAndUpdate2 (example_host2 (Loaded 200 ledger_csv) [legend2 ''Volume'' None])
        (fetchAndUpdate2 (example_host2 (Loaded 200 ledger_csv) [legend2 ''Volume'' None]) init_client2))
       = Some (''No changes'', ''ol-status '')"
  apply (simp only: run2_no_change)
  apply (simp only: run2_not_found)
  by (simp add: legend2_def toLowerCase_def lower_char_def)

text \<open>
  Claim C8 as amended.  With the status elements in the document, a cycle of version 1.0
  that passes the guard ends with the status text of its outcome: the error's message
  after \<^verbatim>\<open>Error:\<close> when the fetch or the driver threw, no changes, indicator not found,
  update failed when the driver returned false, updated when it returned true; and with
  the details \<^verbatim>\<open>Last update:\<close> and the time at which the cycle ended.  A cycle of
  version 2.0 ends with \<^verbatim>\<open>Error:\<close> and the message in the error style, or
  \<^verbatim>\<open>No changes\<close>, both without a time, or, whenever the levels changed, with
  \<^verbatim>\<open>Updated:\<close> and the time of the fetch in the success style, whatever the driver
  returned.
\<close>

theorem C8_status_reports:
  assumes "\<not> isUpdating w" and "status_text w \<noteq> None" and "status_details w \<noteq> None"
    and "\<not> isUpdating w2" and "ol_status w2 \<noteq> None"
  shows "status_text (fetchAndUpdate h w) =
           Some (case fetchData (response h) of
                   Inl e \<Rightarrow> ''Error: '' @ error_message e
                 | Inr data \<Rightarrow>
                     if data = lastData w then ''Options Levels: No changes''
                     else if \<not> fst (findIndicatorSettings (page h) w) then ''Indicator not found on chart''
                     else (case fst (updateIndicatorInput (page h) data w) of
                             Inl e \<Rightarrow> ''Error: '' @ error_message e
                           | Inr updated \<Rightarrow>
                               if updated then ''Options Levels: Updated '' @ check_mark
                               else ''Update failed - manual paste needed''))
       \<and> status_details (fetchAndUpdate h w)
           = Some (''Last update: '' @ time_string h (clock (fetchAndUpdate h w)))
       \<and> ol_status (fetchAndUpdate2 h2 w2) =
           Some (case fetchData2 (parseFloat h2) (response h2) of
                   Inl e \<Rightarrow> (''Error: '' @ error_message e, ''ol-status error'')
                 | Inr data \<Rightarrow>
                     if record_changed data w2
                     then (''Updated: '' @ time_string h2 (clock w2 + latency h2), ''ol-status success'')
                     else (''No changes'', ''ol-status ''))"
  using fetchAndUpdate_status [OF assms(1,2,3)] fetchAndUpdate2_status [OF assms(4,5)] by simp

theorem C8_status_reports_witness:
  "\<not> isUpdating init_client \<and> status_text init_client \<noteq> None \<and> status_details init_client \<noteq> None
   \<and> \<not> isUpdating init_client2 \<and> ol_status init_client2 \<noteq> None
   \<and> status_text (fetchAndUpdate (example_host (Loaded 200 ledger_csv) (chart ''Options Levels Tracker'' []))
        init_client) = Some ''Update failed - manual paste needed''
   \<and> status_details (fetchAndUpdate (example_host (Loaded 200 ledger_csv) (chart ''Options Levels Tracker'' []))
        init_client) = Some (''Last update: '' @ decimal 620)
   \<and> ol_status (fetchAndUpdate2 (example_host2 (Loaded 404 []) [legend2 ''Volume'' None]) init_client2)
       = Some (''Error: HTTP '' @ decimal 404, ''ol-status error'')"
proof -
  let ?h = "example_host (Loaded 200 ledger_csv) (chart ''Options Levels Tracker'' [])"
  let ?h2 = "example_host2 (Loaded 404 []) [legend2 ''Volume'' None]"
  have a: "\<not> isUpdating init_client" "status_text init_client \<noteq> None" "status_details init_client \<noteq> None"
    and b: "\<not> isUpdating init_client2" "ol_status init_client2 \<noteq> None"
    by (simp_all add: init_client_def init_client2_def)
  note t = C8_status_reports [OF a b, of ?h ?h2]
  have c: "clock (fetchAndUpdate ?h init_client) = 620"
    by (simp add: run_no_dialog)
  have d: "fetchData (response ?h) = Inr ledger_day1"
    by (simp add: example_host_def fetchData_ledger_csv del: fetchData.simps)
  have e: "fst (findIndicatorSettings (page ?h) init_client)"
    "fst (updateIndicatorInput (page ?h) ledger_day1 init_client) = Inr False"
    by (simp_all add: script_defs example_defs)
  have f: "ledger_day1 \<noteq> lastData init_client"
    by (simp add: init_client_def ledger_day1_def)
  have g: "fetchData2 (parseFloat ?h2) (response ?h2) = Inl (Error (''HTTP '' @ decimal 404))"
    by (simp add: example_host2_def)
  have "status_text (fetchAndUpdate ?h init_client) = Some ''Update failed - manual paste needed''"
    apply (subst t [THEN conjunct1])
    by (simp add: d e f del: fetchData.simps)
  moreover have "status_details (fetchAndUpdate ?h init_client) = Some (''Last update: '' @ decimal 620)"
    apply (subst t [THEN conjunct2, THEN conjunct1])
    apply (simp only: c)
    by (simp add: example_host_def)
  moreover have "ol_status (fetchAndUpdate2 ?h2 init_client2)
       = Some (''Error: HTTP '' @ decimal 404, ''ol-status error'')"
    apply (subst t [THEN conjunct2, THEN conjunct2])
    by (simp add: g del: fetchData2.simps)
  ultimately show ?thesis
    using a b by simp
qed

section \<open>No second attempt while one is in flight (C3)\<close>

text \<open>An invocation that finds the guard set returns at once and changes nothing.\<close>

lemma fetchAndUpdate_guarded: "isUpdating w \<Longrightarrow> fetchAndUpdate h w = w"
  by (simp add: fetchAndUpdate_def)

lemma fetchAndUpdate2_guarded: "isUpdating w \<Longrightarrow> fetchAndUpdate2 h w = w"
  by (simp add: fetchAndUpdate2_def)

text \<open>
  The tasks are the functions: resumed three times, a task of version 1.0 has returned,
  with the client \<^verbatim>\<open>fetchAndUpdate\<close> gives; a task of version 2.0 has returned after some
  number of resumptions (two for each legend item it opens, at most), with the client
  \<^verbatim>\<open>fetchAndUpdate\<close> gives.
\<close>

lemma run_completes: "run 3 h (start h w) = (Done, fetchAndUpdate h w)"
proof (cases "isUpdating w")
  case True
  then show ?thesis by (simp add: start_def fetchAndUpdate_def numeral_3_eq_3)
next
  case False
  obtain st w1 where a: "fetchAndUpdate_fetched h (sleep (latency h) (fetchAndUpdate_begin h w)) = (st, w1)"
    by (cases "fetchAndUpdate_fetched h (sleep (latency h) (fetchAndUpdate_begin h w))")
  show ?thesis
  proof (cases st)
    case (Returns b)
    then show ?thesis using False a by (simp add: start_def fetchAndUpdate_def numeral_3_eq_3)
  next
    case (Throws e)
    then show ?thesis using False a by (simp add: start_def fetchAndUpdate_def numeral_3_eq_3)
  next
    case (Suspends data)
    obtain st2 w2 where b: "updateIndicatorInput_write (page h) data (sleep 500 w1) = (st2, w2)"
      by (cases "updateIndicatorInput_write (page h) data (sleep 500 w1)")
    show ?thesis
      using False a Suspends b
      by (cases st2)
        (simp_all add: start_def fetchAndUpdate_def numeral_3_eq_3 updateIndicatorInput_def
          split: prod.splits)
  qed
qed

lemma run2_Done2 [simp]: "run2 n h (Done2, w) = (Done2, w)"
  by (induction n) simp_all

lemma run2_next:
  "\<exists>n. run2 n h (updateIndicatorSettings_next h data items w)
         = (Done2,
            after_update2 h data
              (fst (updateIndicatorSettings (rec_resistance data) (rec_support data) items w))
              (snd (updateIndicatorSettings (rec_resistance data) (rec_support data) items w)))"
proof (induction items arbitrary: w)
  case Nil
  have "run2 0 h (updateIndicatorSettings_next h data [] w)
      = (Done2, after_update2 h data
           (fst (updateIndicatorSettings (rec_resistance data) (rec_support data) [] w))
           (snd (updateIndicatorSettings (rec_resistance data) (rec_support data) [] w)))"
    by simp
  then show ?case by blast
next
  case (Cons item rest)
  let ?r = "rec_resistance data" and ?s = "rec_support data"
  show ?case
  proof (cases "legend_title item")
    case None
    then show ?thesis using Cons.IH [of w] by simp
  next
    case (Some t)
    show ?thesis
    proof (cases "js_includes (toLowerCase t) ''options''")
      case False
      then show ?thesis using Cons.IH [of w] Some by simp
    next
      case True
      show ?thesis
      proof (cases "legend_settings item")
        case None
        then show ?thesis using Cons.IH [of w] Some True by simp
      next
        case b: (Some settingsBtn)
        let ?w1 = "sleep 600 (emit (Click settingsBtn) w)"
        show ?thesis
        proof (cases "opened_dialog item")
          case None
          obtain n where "run2 n h (updateIndicatorSettings_next h data rest ?w1)
              = (Done2, after_update2 h data (fst (updateIndicatorSettings ?r ?s rest ?w1))
                   (snd (updateIndicatorSettings ?r ?s rest ?w1)))"
            using Cons.IH [of ?w1] by blast
          then have "run2 (Suc n) h (updateIndicatorSettings_next h data (item # rest) w)
              = (Done2, after_update2 h data (fst (updateIndicatorSettings ?r ?s (item # rest) w))
                   (snd (updateIndicatorSettings ?r ?s (item # rest) w)))"
            using Some True b None by simp
          then show ?thesis by blast
        next
          case d: (Some dlg)
          let ?w2 = "sleep 200 (write_inputs ?r ?s (dlg2_inputs dlg) ?w1)"
          show ?thesis
          proof (cases "dlg2_submit dlg")
            case None
            obtain n where "run2 n h (updateIndicatorSettings_next h data rest ?w2)
                = (Done2, after_update2 h data (fst (updateIndicatorSettings ?r ?s rest ?w2))
                     (snd (updateIndicatorSettings ?r ?s rest ?w2)))"
              using Cons.IH [of ?w2] by blast
            then have "run2 (Suc (Suc n)) h (updateIndicatorSettings_next h data (item # rest) w)
                = (Done2, after_update2 h data (fst (updateIndicatorSettings ?r ?s (item # rest) w))
                     (snd (updateIndicatorSettings ?r ?s (item # rest) w)))"
              using Some True b d None by simp
            then show ?thesis by blast
          next
            case ok: (Some okBtn)
            have "run2 (Suc (Suc 0)) h (updateIndicatorSettings_next h data (item # rest) w)
                = (Done2, after_update2 h data (fst (updateIndicatorSettings ?r ?s (item # rest) w))
                     (snd (updateIndicatorSettings ?r ?s (item # rest) w)))"
              using Some True b d ok by simp
            then show ?thesis by blast
          qed
        qed
      qed
    qed
  qed
qed

lemma run2_completes: "\<exists>n. run2 n h (start2 w) = (Done2, fetchAndUpdate2 h w)"
proof (cases "isUpdating w")
  case True
  then have "run2 0 h (start2 w) = (Done2, fetchAndUpdate2 h w)"
    by (simp add: start2_def fetchAndUpdate2_def)
  then show ?thesis by blast
next
  case False
  let ?w1 = "sleep (latency h) (fetchAndUpdate2_begin w)"
  show ?thesis
  proof (cases "fetchData2 (parseFloat h) (response h)")
    case (Inl e)
    then have "run2 (Suc 0) h (start2 w) = (Done2, fetchAndUpdate2 h w)"
      using False by (simp add: start2_def fetchAndUpdate2_def Let_def)
    then show ?thesis by blast
  next
    case (Inr data)
    show ?thesis
    proof (cases "record_changed data ?w1")
      case no: False
      then have "run2 (Suc 0) h (start2 w) = (Done2, fetchAndUpdate2 h w)"
        using False Inr by (simp add: start2_def fetchAndUpdate2_def Let_def)
      then show ?thesis by blast
    next
      case True
      obtain n where "run2 n h (updateIndicatorSettings_next h data (legendItems h) (store_record h data ?w1))
          = (Done2, after_update2 h data
               (fst (updateIndicatorSettings (rec_resistance data) (rec_support data) (legendItems h)
                      (store_record h data ?w1)))
               (snd (updateIndicatorSettings (rec_resistance data) (rec_support data) (legendItems h)
                      (store_record h data ?w1))))"
        using run2_next by blast
      then have "run2 (Suc n) h (start2 w) = (Done2, fetchAndUpdate2 h w)"
        using False Inr True by (simp add: start2_def fetchAndUpdate2_def Let_def split: prod.splits)
      then show ?thesis by blast
    qed
  qed
qed

text \<open>A task that has not returned holds the guard.\<close>

lemma fetched_suspends_guard:
  "fetchAndUpdate_fetched h w = (Suspends data, w1) \<Longrightarrow> isUpdating w1 = isUpdating w"
  by (auto simp: fetchAndUpdate_fetched_def findIndicatorSettings_def
      split: sum.splits if_splits option.splits)

lemma resume_holds_guard:
  assumes "isUpdating w" and "resume h t w = (t', w')" and "t' \<noteq> Done"
  shows "isUpdating w'"
proof (cases t)
  case AwaitFetch
  obtain st w1 where a: "fetchAndUpdate_fetched h (sleep (latency h) w) = (st, w1)"
    by (cases "fetchAndUpdate_fetched h (sleep (latency h) w)")
  then obtain data where st: "st = Suspends data" and w1: "w1 = w'"
    using assms(2,3) AwaitFetch by (cases st) auto
  show ?thesis
    using fetched_suspends_guard [of h "sleep (latency h) w" data w1] a st w1 assms(1) by simp
next
  case (AwaitDialog data)
  obtain st w1 where a: "updateIndicatorInput_write (page h) data (sleep 500 w) = (st, w1)"
    by (cases "updateIndicatorInput_write (page h) data (sleep 500 w)")
  then have "w1 = w'"
    using assms(2,3) AwaitDialog by (cases st) auto
  then show ?thesis
    using updateIndicatorInput_write_fields(1) [of "page h" data "sleep 500 w"] a assms(1) by simp
next
  case (AwaitApply data dlg)
  then show ?thesis using assms(2,3) by (auto split: prod.splits)
next
  case Done
  then show ?thesis using assms by simp
qed

lemma run_holds_guard:
  assumes "\<not> isUpdating u" and "run n h (start h u) = (t, w)" and "t \<noteq> Done"
  shows "isUpdating w"
proof -
  have "fst tw = Done \<or> isUpdating (snd tw) \<Longrightarrow> run n h tw = (t, w) \<Longrightarrow> t \<noteq> Done \<Longrightarrow> isUpdating w"
    for tw
  proof (induction n arbitrary: tw)
    case 0
    then show ?case by auto
  next
    case (Suc n)
    obtain t1 w1 where r: "resume h (fst tw) (snd tw) = (t1, w1)"
      by (cases "resume h (fst tw) (snd tw)")
    have "t1 = Done \<or> isUpdating w1"
    proof (cases "fst tw = Done")
      case True
      then show ?thesis using r by simp
    next
      case False
      then show ?thesis using Suc.prems(1) r resume_holds_guard [of "snd tw" h "fst tw" t1 w1] by blast
    qed
    then show ?case
      using Suc.IH [of "(t1, w1)"] Suc.prems(2,3) r by simp
  qed
  moreover have "fst (start h u) = Done \<or> isUpdating (snd (start h u))"
    using assms(1) by (simp add: start_def)
  ultimately show ?thesis using assms(2,3) by blast
qed

lemma next_holds_guard:
  "isUpdating w \<Longrightarrow> updateIndicatorSettings_next h data items w = (t', w') \<Longrightarrow> t' \<noteq> Done2
     \<Longrightarrow> isUpdating w'"
  by (induction items) (auto split: option.splits if_splits)

lemma resume2_holds_guard:
  assumes "isUpdating w" and "resume2 h t w = (t', w')" and "t' \<noteq> Done2"
  shows "isUpdating w'"
proof (cases t)
  case AwaitFetch2
  then show ?thesis
    using assms next_holds_guard [of "store_record h d (sleep (latency h) w)" h d "legendItems h" t' w' for d]
    by (auto simp: store_record_def split: sum.splits if_splits)
next
  case (AwaitDialog2 data item rest)
  then show ?thesis
    using assms next_holds_guard [of "sleep 600 w" h data rest t' w']
    by (auto split: option.splits)
next
  case (AwaitSubmit2 data dlg rest)
  then show ?thesis
    using assms next_holds_guard [of "sleep 200 w" h data rest t' w']
    by (auto split: option.splits)
next
  case Done2
  then show ?thesis using assms by simp
qed

lemma run2_holds_guard:
  assumes "\<not> isUpdating u" and "run2 n h (start2 u) = (t, w)" and "t \<noteq> Done2"
  shows "isUpdating w"
proof -
  have "fst tw = Done2 \<or> isUpdating (snd tw) \<Longrightarrow> run2 n h tw = (t, w) \<Longrightarrow> t \<noteq> Done2 \<Longrightarrow> isUpdating w"
    for tw
  proof (induction n arbitrary: tw)
    case 0
    then show ?case by auto
  next
    case (Suc n)
    obtain t1 w1 where r: "resume2 h (fst tw) (snd tw) = (t1, w1)"
      by (cases "resume2 h (fst tw) (snd tw)")
    have "t1 = Done2 \<or> isUpdating w1"
    proof (cases "fst tw = Done2")
      case True
      then show ?thesis using r by simp
    next
      case False
      then show ?thesis using Suc.prems(1) r resume2_holds_guard [of "snd tw" h "fst tw" t1 w1] by blast
    qed
    then show ?case
      using Suc.IH [of "(t1, w1)"] Suc.prems(2,3) r by simp
  qed
  moreover have "fst (start2 u) = Done2 \<or> isUpdating (snd (start2 u))"
    using assms(1) by (simp add: start2_def)
  ultimately show ?thesis using assms(2,3) by blast
qed

text \<open>
  Claim C3.  An invocation of \<^verbatim>\<open>fetchAndUpdate\<close> that finds \<^verbatim>\<open>isUpdating\<close> true returns the
  client as it found it: no request, no click, no write, no status, no change of a
  variable.  An invocation that found the guard free holds it at every \<^verbatim>\<open>await\<close> at which
  it is suspended (\<open>t\<close> is a task that has not returned, reached after any number of
  resumptions), so an invocation that begins there, on the timer or by a click, is such a
  no-op, and the first attempt remains the only one in flight.
\<close>

theorem C3_guard_excludes_overlap:
  assumes "isUpdating w" and "isUpdating w2"
    and "\<not> isUpdating u" and "run n h (start h u) = (t, u')" and "t \<noteq> Done"
    and "\<not> isUpdating u2" and "run2 n2 h2 (start2 u2) = (t2, u2')" and "t2 \<noteq> Done2"
  shows "fetchAndUpdate h w = w \<and> start h w = (Done, w)
       \<and> fetchAndUpdate2 h2 w2 = w2 \<and> start2 w2 = (Done2, w2)
       \<and> isUpdating u' \<and> start h' u' = (Done, u') \<and> fetchAndUpdate h' u' = u'
       \<and> isUpdating u2' \<and> start2 u2' = (Done2, u2') \<and> fetchAndUpdate2 h2' u2' = u2'
       \<and> run 3 h (start h u) = (Done, fetchAndUpdate h u)
       \<and> (\<exists>k. run2 k h2 (start2 u2) = (Done2, fetchAndUpdate2 h2 u2))"
proof -
  have a: "isUpdating u'"
    using assms(3,4,5) by (rule run_holds_guard)
  have b: "isUpdating u2'"
    using assms(6,7,8) by (rule run2_holds_guard)
  show ?thesis
    using assms(1,2) a b run_completes [of h u] run2_completes [of h2 u2]
    by (simp add: fetchAndUpdate_guarded fetchAndUpdate2_guarded start_def start2_def)
qed

theorem C3_guard_excludes_overlap_witness:
  "run 1 (example_host (Loaded 200 ledger_csv) (chart ''Options Levels Tracker'' [dialog_with_ok]))
       (start (example_host (Loaded 200 ledger_csv) (chart ''Options Levels Tracker'' [dialog_with_ok]))
          init_client)
     = (AwaitDialog ledger_day1,
        init_client\<lparr>isUpdating := True, clock := 120,
          effects := [Request (fetchData_url 0), Click 7], lastData := ledger_day1,
          status_text := Some ''Updating...'',
          status_details := Some (''Last update: '' @ decimal 0)\<rparr>)
   \<and> fetchAndUpdate (example_host (Loaded 200 ledger_csv_next) (chart ''Options Levels Tracker'' [dialog_with_ok]))
        (init_client\<lparr>isUpdating := True, clock := 120,
          effects := [Request (fetchData_url 0), Click 7], lastData := ledger_day1,
          status_text := Some ''Updating...'',
          status_details := Some (''Last update: '' @ decimal 0)\<rparr>)
     = init_client\<lparr>isUpdating := True, clock := 120,
          effects := [Request (fetchData_url 0), Click 7], lastData := ledger_day1,
          status_text := Some ''Updating...'',
          status_details := Some (''Last update: '' @ decimal 0)\<rparr>
   \<and> fst (run2 1 (example_host2 (Loaded 200 ledger_csv) [legend2 ''Options Levels Tracker'' (Some levels_dialog)])
        (start2 init_client2))
     = AwaitDialog2 \<lparr>rec_date = ''18/12/2024'', rec_resistance = Num 98500, rec_support = Num 95200\<rparr>
         (legend2 ''Options Levels Tracker'' (Some levels_dialog)) []
   \<and> isUpdating (snd (run2 1
        (example_host2 (Loaded 200 ledger_csv) [legend2 ''Options Levels Tracker'' (Some levels_dialog)])
        (start2 init_client2)))"
proof -
  let ?h = "example_host (Loaded 200 ledger_csv) (chart ''Options Levels Tracker'' [dialog_with_ok])"
  let ?h' = "example_host (Loaded 200 ledger_csv_next) (chart ''Options Levels Tracker'' [dialog_with_ok])"
  let ?h2 = "example_host2 (Loaded 200 ledger_csv) [legend2 ''Options Levels Tracker'' (Some levels_dialog)]"
  let ?u' = "init_client\<lparr>isUpdating := True, clock := 120,
          effects := [Request (fetchData_url 0), Click 7], lastData := ledger_day1,
          status_text := Some ''Updating...'',
          status_details := Some (''Last update: '' @ decimal 0)\<rparr>"
  let ?d = "\<lparr>rec_date = ''18/12/2024'', rec_resistance = Num 98500, rec_support = Num 95200\<rparr>"
  have g: "\<not> isUpdating init_client" "\<not> isUpdating init_client2" "isUpdating ?u'"
    "isUpdating (init_client2\<lparr>isUpdating := True\<rparr>)"
    by (simp_all add: init_client_def init_client2_def)
  have r1: "run 1 ?h (start ?h init_client) = (AwaitDialog ledger_day1, ?u')"
    by (simp add: start_def script_defs example_defs)
  obtain u2' where r2: "run2 1 ?h2 (start2 init_client2) = (AwaitDialog2 ?d (legend2 ''Options Levels Tracker'' (Some levels_dialog)) [], u2')"
    by (simp add: start2_def script2_defs example_defs upt_rec)
  note t = C3_guard_excludes_overlap [OF g(3) g(4) g(1) r1 _ g(2) r2, where h' = ?h' and h2' = ?h2]
  have "fetchAndUpdate ?h' ?u' = ?u'" and "isUpdating u2'"
    using t by simp_all
  then show ?thesis
    using r1 r2 by simp
qed

end
